theory Spec2Isabelle
  imports Main "HOL-Library.Sublist"
begin

section \<open>The workshop repository: notebooks and a docker-compose file\<close>

text \<open>
  The repository holds Jupyter notebooks (JSON documents whose \<open>cells\<close> array lists
  markdown and code cells) and one docker-compose file. A notebook is modelled as the
  list of its cells, a cell as a record of the two JSON fields the properties below
  read: \<open>cell_type\<close> and \<open>source\<close>, the latter being the list of the cell's lines as
  the JSON array holds them (every line but the last keeps its line feed). The fields
  \<open>metadata\<close>, \<open>execution_count\<close> and \<open>outputs\<close> are not modelled.
\<close>

datatype cell_type = Markdown | Code

record cell =
  cell_type :: cell_type
  source :: "string list"

type_synonym notebook = "cell list"

subsection \<open>Strings, as Python and the shell read them\<close>

text \<open>\<open>startswith s p\<close> is Python's \<open>s.startswith(p)\<close>.\<close>

definition startswith :: "string \<Rightarrow> string \<Rightarrow> bool" where
  "startswith s p = prefix p s"

text \<open>\<open>contains s p\<close> is Python's \<open>p in s\<close>: \<open>p\<close> starts at some position of \<open>s\<close>.\<close>

fun contains :: "string \<Rightarrow> string \<Rightarrow> bool" where
  "contains [] p = (p = [])"
| "contains (c # cs) p = (prefix p (c # cs) \<or> contains cs p)"

text \<open>\<open>lstrip\<close> drops the leading blanks of a line (its indentation).\<close>

fun lstrip :: "string \<Rightarrow> string" where
  "lstrip [] = []"
| "lstrip (c # cs) = (if c = CHR '' '' then lstrip cs else c # cs)"

text \<open>
  \<open>split_on d s\<close> is Python's \<open>s.split(d)\<close> for a one-character separator: the
  pieces between the separators, empty pieces included.
\<close>

fun split_on :: "char \<Rightarrow> string \<Rightarrow> string list" where
  "split_on d [] = [[]]"
| "split_on d (c # cs) =
     (if c = d then [] # split_on d cs
      else (case split_on d cs of
              [] \<Rightarrow> [[c]]
            | w # ws \<Rightarrow> (c # w) # ws))"

text \<open>Decimal numerals: \<open>parse_nat\<close> is \<open>int(s)\<close> on digit strings, \<open>None\<close> otherwise.\<close>

definition decimal_digits :: "(char \<times> nat) list" where
  "decimal_digits =
     [(CHR ''0'', 0), (CHR ''1'', 1), (CHR ''2'', 2), (CHR ''3'', 3), (CHR ''4'', 4),
      (CHR ''5'', 5), (CHR ''6'', 6), (CHR ''7'', 7), (CHR ''8'', 8), (CHR ''9'', 9)]"

definition digit_val :: "char \<Rightarrow> nat option" where
  "digit_val c = map_of decimal_digits c"

fun parse_digits :: "nat \<Rightarrow> string \<Rightarrow> nat option" where
  "parse_digits acc [] = Some acc"
| "parse_digits acc (c # cs) =
     (case digit_val c of
        None \<Rightarrow> None
      | Some d \<Rightarrow> parse_digits (10 * acc + d) cs)"

definition parse_nat :: "string \<Rightarrow> nat option" where
  "parse_nat s = (if s = [] then None else parse_digits 0 s)"

subsection \<open>The docker-compose file\<close>

text \<open>
  The compose file (version 3.7) is a YAML mapping with the keys \<open>version\<close>,
  \<open>services\<close> and \<open>volumes\<close>. A service has an \<open>image\<close>, a list of \<open>ports\<close>
  (plain scalars \<open>HOST:CONTAINER\<close>) and a list of \<open>volumes\<close>, each entry either in
  the long syntax (a mapping with \<open>type\<close>, \<open>source\<close>, \<open>target\<close>) or in the short
  syntax (a scalar \<open>SOURCE:TARGET\<close>).
\<close>

datatype volume_entry =
    Long_syntax (vtype: string) (vsource: string) (vtarget: string)
  | Short_syntax string

record service =
  image :: string
  ports :: "string list"
  volumes :: "volume_entry list"

record compose_file =
  version :: string
  services :: "(string \<times> service) list"
  top_level_volumes :: "string list"

definition jupyter :: service where
  "jupyter =
     \<lparr>image = ''radtkem/from-jupyter-to-production-baseimage:latest'',
      ports = [''8888:8888'', ''4141:4141'', ''5000:5000'', ''7777:7777''],
      volumes =
        [Long_syntax ''bind'' ''./notebooks'' ''/workshop/notebooks'',
         Short_syntax ''workspace:/workshop/workspace'']\<rparr>"

definition airflow :: service where
  "airflow =
     \<lparr>image = ''radtkem/from-jupyter-to-production-airflow-image:latest'',
      ports = [''8080:8080''],
      volumes =
        [Long_syntax ''bind'' ''./notebooks/airflow/dags'' ''/usr/local/airflow/dags'',
         Long_syntax ''bind'' ''./notebooks/airflow/exercise-dataset-airflow''
           ''/exercise-dataset-airflow'',
         Short_syntax ''workspace:/workshop/workspace'']\<rparr>"

definition docker_compose :: compose_file where
  "docker_compose =
     \<lparr>version = ''3.7'',
      services = [(''jupyter'', jupyter), (''airflow'', airflow)],
      top_level_volumes = [''workspace'']\<rparr>"

text \<open>
  A port entry \<open>HOST:CONTAINER\<close> publishes the container's port on the host's port;
  an entry with no colon names a container port only and fixes no host port.
\<close>

definition host_port :: "string \<Rightarrow> nat option" where
  "host_port p =
     (case split_on CHR '':'' p of
        [h, c] \<Rightarrow> (case parse_nat c of None \<Rightarrow> None | Some _ \<Rightarrow> parse_nat h)
      | _ \<Rightarrow> None)"

definition container_port :: "string \<Rightarrow> nat option" where
  "container_port p =
     (case split_on CHR '':'' p of
        [c] \<Rightarrow> parse_nat c
      | [h, c] \<Rightarrow> (case parse_nat h of None \<Rightarrow> None | Some _ \<Rightarrow> parse_nat c)
      | _ \<Rightarrow> None)"

definition service_names :: "compose_file \<Rightarrow> string list" where
  "service_names f = map fst (services f)"

definition service_of :: "compose_file \<Rightarrow> string \<Rightarrow> service option" where
  "service_of f n = map_of (services f) n"

text \<open>
  What a volume entry mounts. A path is the list of its components. In the short
  syntax the source is a host path when it starts with \<open>.\<close>, \<open>/\<close> or \<open>~\<close>, and the
  name of a volume otherwise; a named volume is one storage, whichever service
  mounts it.
\<close>

type_synonym path = "string list"

datatype storage = Host_path string | Named_volume string

definition split_path :: "string \<Rightarrow> path" where
  "split_path p = filter (\<lambda>s. s \<noteq> []) (split_on CHR ''/'' p)"

definition is_host_path :: "string \<Rightarrow> bool" where
  "is_host_path s = (startswith s ''.'' \<or> startswith s ''/'' \<or> startswith s ''~'')"

fun mount_of :: "volume_entry \<Rightarrow> (storage \<times> path) option" where
  "mount_of (Long_syntax t s tg) =
     (if t = ''bind'' then Some (Host_path s, split_path tg)
      else if t = ''volume'' then Some (Named_volume s, split_path tg)
      else None)"
| "mount_of (Short_syntax e) =
     (case split_on CHR '':'' e of
        [s, tg] \<Rightarrow>
          Some (if is_host_path s then Host_path s else Named_volume s, split_path tg)
      | _ \<Rightarrow> None)"

definition mounts :: "service \<Rightarrow> (storage \<times> path) list" where
  "mounts s = List.map_filter mount_of (volumes s)"

text \<open>
  \<open>resolve ms p\<close>: the storage that backs the container path \<open>p\<close> and the path inside
  it, under the mounts \<open>ms\<close>: the mount with the longest target that is a prefix of
  \<open>p\<close> (the first such, where several are as long); \<open>None\<close> when no mount covers \<open>p\<close>,
  which then lives in the container's own file system.
\<close>

fun longest_target :: "(storage \<times> path) \<Rightarrow> (storage \<times> path) list \<Rightarrow> (storage \<times> path)" where
  "longest_target best [] = best"
| "longest_target best (m # ms) =
     (if length (snd best) < length (snd m) then longest_target m ms
      else longest_target best ms)"

definition resolve :: "(storage \<times> path) list \<Rightarrow> path \<Rightarrow> (storage \<times> path) option" where
  "resolve ms p =
     (case filter (\<lambda>m. prefix (snd m) p) ms of
        [] \<Rightarrow> None
      | m # rest \<Rightarrow>
          (case longest_target m rest of
             (st, tg) \<Rightarrow> Some (st, drop (length tg) p)))"

subsection \<open>Reading a cell\<close>

text \<open>
  IPython runs a code cell in the kernel unless the cell says otherwise: a line that
  starts with \<open>!\<close> is handed to the system shell; a cell whose first line is the cell
  magic \<open>%%bash\<close> or \<open>%%sh\<close> is run as a shell script; a cell whose first line is
  \<open>%%writefile PATH\<close> is written to the file \<open>PATH\<close> and not executed. A line that
  starts with \<open>#\<close> is a comment.
\<close>

definition first_line :: "cell \<Rightarrow> string" where
  "first_line c = (case source c of [] \<Rightarrow> [] | l # ls \<Rightarrow> l)"

definition is_shell_magic :: "cell \<Rightarrow> bool" where
  "is_shell_magic c = (startswith (first_line c) ''%%bash'' \<or> startswith (first_line c) ''%%sh'')"

definition is_writefile_magic :: "cell \<Rightarrow> bool" where
  "is_writefile_magic c = startswith (first_line c) ''%%writefile''"

definition is_bang_line :: "string \<Rightarrow> bool" where
  "is_bang_line l = startswith l ''!''"

definition is_comment_line :: "string \<Rightarrow> bool" where
  "is_comment_line l = startswith (lstrip l) ''#''"

definition is_blank_line :: "string \<Rightarrow> bool" where
  "is_blank_line l = (lstrip l = [] \<or> lstrip l = ''\<newline>'')"

definition is_bang_cell :: "cell \<Rightarrow> bool" where
  "is_bang_cell c =
     (list_ex is_bang_line (source c)
      \<and> list_all (\<lambda>l. is_bang_line l \<or> is_comment_line l \<or> is_blank_line l) (source c))"

text \<open>
  A code cell is a shell invocation when it is a \<open>%%bash\<close>/\<open>%%sh\<close> cell, or when it
  has a \<open>!\<close> line and nothing but \<open>!\<close> lines, comments and blank lines.
\<close>

definition is_shell_cell :: "cell \<Rightarrow> bool" where
  "is_shell_cell c = (cell_type c = Code \<and> (is_shell_magic c \<or> is_bang_cell c))"

definition markdown_or_shell :: "cell \<Rightarrow> bool" where
  "markdown_or_shell c = (cell_type c = Markdown \<or> is_shell_cell c)"

text \<open>
  The kinds of cell the notebooks hold. A code cell is: empty; a shell invocation; a
  \<open>%%writefile\<close> cell; a cell of comments only; or else a cell with at least one line of
  Python that the kernel executes.
\<close>

datatype cell_kind =
  Markdown_cell | Empty_cell | Shell_cell | Writefile_cell | Comment_cell | Python_cell

definition classify :: "cell \<Rightarrow> cell_kind" where
  "classify c =
     (if cell_type c = Markdown then Markdown_cell
      else if source c = [] then Empty_cell
      else if is_shell_magic c then Shell_cell
      else if is_writefile_magic c then Writefile_cell
      else if list_all (\<lambda>l. is_bang_line l \<or> is_comment_line l \<or> is_blank_line l) (source c)
        then (if list_ex is_bang_line (source c) then Shell_cell else Comment_cell)
      else Python_cell)"

definition cells_of_kind :: "cell_kind \<Rightarrow> cell list \<Rightarrow> cell list" where
  "cells_of_kind k cs = filter (\<lambda>c. classify c = k) cs"

text \<open>
  The shell command lines of a code cell: the body of a \<open>%%bash\<close>/\<open>%%sh\<close> cell, and
  the \<open>!\<close> lines of any other code cell with the \<open>!\<close> taken off.
\<close>

definition shell_lines :: "cell \<Rightarrow> string list" where
  "shell_lines c =
     (if cell_type c = Markdown then []
      else if is_shell_magic c then tl (source c)
      else map tl (filter is_bang_line (source c)))"

definition invokes :: "cell \<Rightarrow> string \<Rightarrow> bool" where
  "invokes c cmd = list_ex (\<lambda>l. startswith l cmd) (shell_lines c)"

text \<open>\<open>mentions c p\<close>: the text \<open>p\<close> occurs in a line of the cell.\<close>

definition mentions :: "cell \<Rightarrow> string \<Rightarrow> bool" where
  "mentions c p = list_ex (\<lambda>l. contains l p) (source c)"

text \<open>
  A code cell calls a constructor named \<open>Pipeline\<close> or \<open>node\<close> when its text holds
  \<open>Pipeline(\<close> or \<open>node(\<close>.
\<close>

definition calls_pipeline_or_node :: "cell \<Rightarrow> bool" where
  "calls_pipeline_or_node c =
     (if cell_type c = Code then mentions c ''Pipeline('' \<or> mentions c ''node('' else False)"





subsection \<open>Python names a cell binds\<close>

text \<open>
  The words of a line of Python: the pieces between blanks, commas, parentheses,
  colons and line feeds.
\<close>

fun pieces :: "string \<Rightarrow> string \<Rightarrow> string list" where
  "pieces seps [] = [[]]"
| "pieces seps (c # cs) =
     (if c \<in> set seps then [] # pieces seps cs
      else (case pieces seps cs of
              [] \<Rightarrow> [[c]]
            | w # ws \<Rightarrow> (c # w) # ws))"

definition words :: "string \<Rightarrow> string list" where
  "words l = filter (\<lambda>w. w \<noteq> []) (pieces '' ,():\<newline>'' l)"

text \<open>
  What a statement binds: \<open>from M import a, b\<close> binds \<open>a\<close> and \<open>b\<close> to names of the
  module \<open>M\<close>; \<open>import M as a\<close> binds \<open>a\<close> and \<open>import M\<close> binds \<open>M\<close>; \<open>def f\<close> and
  \<open>class C\<close> bind a name to a definition of the cell's own.
\<close>

datatype binding = Imported string | Defined

definition statement_bindings :: "string list \<Rightarrow> (string \<times> binding) list" where
  "statement_bindings ws =
     (case ws of
        [] \<Rightarrow> []
      | k # rest \<Rightarrow>
          if k = ''from'' then
            (case rest of
               m # i # ns \<Rightarrow> if i = ''import'' then map (\<lambda>n. (n, Imported m)) ns else []
             | _ \<Rightarrow> [])
          else if k = ''import'' then
            (case rest of
               [m] \<Rightarrow> [(m, Imported m)]
             | [m, a, n] \<Rightarrow> if a = ''as'' then [(n, Imported m)] else []
             | _ \<Rightarrow> [])
          else if k = ''def'' \<or> k = ''class'' then
            (case rest of
               n # _ \<Rightarrow> [(n, Defined)]
             | _ \<Rightarrow> [])
          else [])"

definition is_binding_line :: "string \<Rightarrow> bool" where
  "is_binding_line l =
     (startswith l ''from '' \<or> startswith l ''import '' \<or> startswith l ''def ''
      \<or> startswith l ''class '')"

text \<open>
  \<open>module_bindings\<close>: the bindings made by the statements at the left margin of a
  cell, in order (a later binding of a name replaces an earlier one).
  \<open>defined_names\<close>: the names of all \<open>def\<close> and \<open>class\<close> statements of a cell, at
  any indentation (methods included).
\<close>

definition module_bindings :: "cell \<Rightarrow> (string \<times> binding) list" where
  "module_bindings c =
     concat (map (\<lambda>l. statement_bindings (words l)) (filter is_binding_line (source c)))"

definition lookup_binding :: "cell \<Rightarrow> string \<Rightarrow> binding option" where
  "lookup_binding c n = map_of (rev (module_bindings c)) n"

definition is_definition_line :: "string \<Rightarrow> bool" where
  "is_definition_line l = (startswith (lstrip l) ''def '' \<or> startswith (lstrip l) ''class '')"

definition defined_names :: "cell \<Rightarrow> string list" where
  "defined_names c =
     map fst (concat (map (\<lambda>l. statement_bindings (words l))
                          (filter is_definition_line (source c))))"

subsection \<open>The notebooks, cell by cell\<close>

text \<open>
  Six notebooks: \<open>notebooks/airflow/airflow-introduction.ipynb\<close>,
  \<open>notebooks/dvc/dvc_introduction.ipynb\<close>, \<open>notebooks/fastapi/FastAPI_Introduction.ipynb\<close>,
  and three more whose file names are not known: an Airflow notebook
  (\<open>airflow_part_001\<close>), a FastAPI notebook (\<open>fastapi_part_002\<close>) and the Kedro
  exercise (\<open>kedro_part_002\<close>). The constant \<open>N_cKK\<close> is cell number \<open>KK\<close> of the
  notebook \<open>N\<close>, counted from 0.
\<close>

definition airflow_introduction_c00 :: cell where
  \<open>airflow_introduction_c00 =
    \<lparr>cell_type = Markdown, source = [
        ''# Airflow Classification Pipeline'']\<rparr>\<close>

definition airflow_introduction_c01 :: cell where
  \<open>airflow_introduction_c01 =
    \<lparr>cell_type = Markdown, source = [
        ''Let's have a look at some of the components that Airflow provides. Please note: Airflow DAGs are to be specified in `.py` files, not Jupyter notebooks. This notebook only serves the presentation purpose and can not be directly used in Airflow.'']\<rparr>\<close>

definition airflow_introduction_c02 :: cell where
  \<open>airflow_introduction_c02 =
    \<lparr>cell_type = Markdown, source = [
        ''# Directed Acyclic Graph (DAG)\<newline>'',
        ''\<newline>'',
        ''Each Airflow pipeline has to be a directed acyclic graph (i.e. no loops, clear task dependencies).\<newline>'',
        ''We define a DAG in the following way:\<newline>'',
        ''\<newline>'',
        ''```python\<newline>'',
        ''from airflow import DAG\<newline>'',
        ''\<newline>'',
        ''# the default args will be passed to all tasks belonging to the DAG\<newline>'',
        ''default_args = {\<newline>'',
        ''    'owner': 'airflow',\<newline>'',
        ''    'start_date': datetime(2019, 8, 1),\<newline>'',
        ''    ...\<newline>'',
        ''}\<newline>'',
        ''\<newline>'',
        ''dag = DAG(\<newline>'',
        ''    'keras2production-pipeline',\<newline>'',
        ''    default_args=default_args,\<newline>'',
        ''    schedule_interval=timedelta(days=1),\<newline>'',
        ''    ...\<newline>'',
        '')\<newline>'',
        ''\<newline>'',
        ''```\<newline>'',
        ''\<newline>'',
        ''DAGs need to be placed into the folder `$AIRFLOW_HOME/dags`, where `$AIRFLOW_HOME` is usually set to `/usr/local/airflow`.'']\<rparr>\<close>

definition airflow_introduction_c03 :: cell where
  \<open>airflow_introduction_c03 =
    \<lparr>cell_type = Markdown, source = [
        ''# Operators\<newline>'',
        ''\<newline>'',
        ''Each pipeline consists of steps, which are called operators. Operators execute some kind of task and finish when the task is done. There are also sensors, a special type of operators, which finish when a condition is met (i.e. another task has finished or a file exists). Don't worry so much about the difference between a normal operator and a sensor, just lookup what fits your needs the best in the well-documented API.\<newline>'',
        ''\<newline>'',
        ''This might be the most used operator: The `PythonOperator`.\<newline>'',
        ''\<newline>'',
        ''```python\<newline>'',
        ''from airflow.operators.python_operator import PythonOperator\<newline>'',
        ''\<newline>'',
        ''def print_sth():\<newline>'',
        ''    print("Our slides are still there!")\<newline>'',
        ''    \<newline>'',
        ''python_task = PythonOperator(\<newline>'',
        ''    task_id="print",\<newline>'',
        ''    python_callable=print_sth,\<newline>'',
        ''    provide_context=False,\<newline>'',
        ''    dag=dag\<newline>'',
        '')\<newline>'',
        ''\<newline>'',
        ''```\<newline>'',
        ''\<newline>'',
        ''This is an example of a sensor:\<newline>'',
        ''\<newline>'',
        ''```python\<newline>'',
        ''from airflow.contrib.sensors.file_sensor import FileSensor\<newline>'',
        ''\<newline>'',
        ''fs_task = FileSensor(\<newline>'',
        ''    task_id="lookup_file",\<newline>'',
        ''    filepath="/keras2production/slides/slides.pdf",\<newline>'',
        ''    dag=dag\<newline>'',
        '')\<newline>'',
        ''```'']\<rparr>\<close>

definition airflow_introduction_c04 :: cell where
  \<open>airflow_introduction_c04 =
    \<lparr>cell_type = Markdown, source = [
        ''# Connecting Operators\<newline>'',
        ''\<newline>'',
        ''Airflow uses the bitshift operators `>>` and `<<` to connect pipeline steps together (you can also use `set_upstream()` or `set_downstream()`, but just don't...).\<newline>'',
        ''\<newline>'',
        ''`task1 >> task2` means: `task1` will be executed before `task2`, and vice versa for `<<`.\<newline>'',
        ''\<newline>'',
        ''**Tip**: Only use the `>>` to keep your code consistent and readable.\<newline>'',
        ''\<newline>'',
        ''Let's connect our operator and sensor that we defined above:\<newline>'',
        ''\<newline>'',
        ''```python\<newline>'',
        ''fs_task >> python_task\<newline>'',
        ''```\<newline>'',
        ''\<newline>'',
        ''That's it!'']\<rparr>\<close>

definition airflow_introduction_c05 :: cell where
  \<open>airflow_introduction_c05 =
    \<lparr>cell_type = Markdown, source = [
        ''# XCom\<newline>'',
        ''\<newline>'',
        ''Ideally all of our operators and sensors are independent of each other, that is: No variables, states etc. should have to be communicated between them. This allows an easy exchange of tasks. Since we cannot always avoid communication between tasks, Airflow provides the XCom (_cross-communication_) system, which follows a simple push-pull idea.\<newline>'',
        ''\<newline>'',
        ''You can push a variable in an operator via `xcom_push()` or the `return` statement, and pull (i.e. get) the variable in an other task by `xcom_pull()`.\<newline>'',
        ''\<newline>'',
        ''This is an example, how two python operators could communicate with each other via XCom:\<newline>'',
        ''\<newline>'',
        ''```python\<newline>'',
        ''def foo():\<newline>'',
        ''    x = "hello world"\<newline>'',
        ''    return x\<newline>'',
        ''\<newline>'',
        ''\<newline>'',
        ''def bar(**context):\<newline>'',
        ''    x = context["task_instance"].xcom_pull(task_ids="task1")\<newline>'',
        ''    print(x)\<newline>'',
        ''    \<newline>'',
        ''    \<newline>'',
        ''task1 = PythonOperator(\<newline>'',
        ''    task_id="task1",\<newline>'',
        ''    python_callable=foo,\<newline>'',
        '')\<newline>'',
        ''\<newline>'',
        ''task2 = PythonOperator(\<newline>'',
        ''    task_id="task2",\<newline>'',
        ''    python_callable=bar,\<newline>'',
        ''    provide_context=True,\<newline>'',
        '')\<newline>'',
        ''\<newline>'',
        ''task1 >> task2\<newline>'',
        ''```\<newline>'',
        ''\<newline>'',
        ''**Note**: The pulling task needs to be provided with context.'']\<rparr>\<close>

definition airflow_introduction_c06 :: cell where
  \<open>airflow_introduction_c06 =
    \<lparr>cell_type = Markdown, source = [
        ''# The web interface\<newline>'',
        ''\<newline>'',
        ''To monitor and manage your pipelines, Airflow offers a web interface. You can find it today at `localhost:8080`.'']\<rparr>\<close>

definition airflow_introduction_c07 :: cell where
  \<open>airflow_introduction_c07 =
    \<lparr>cell_type = Markdown, source = [
        ''# There is so much more!\<newline>'',
        ''\<newline>'',
        ''Airflow has many concepts to offer, which allow a robust but flexible execution. Some highlights are:\<newline>'',
        ''- Error and retry management\<newline>'',
        ''- Different executors (Celery, Sequential, Local), allowing for parallel execution on multiple nodes\<newline>'',
        ''- Integration with GCP, AWS, Azure, ...\<newline>'',
        ''\<newline>'',
        ''Check out the [documentation page](https://airflow.apache.org/) for more information.'']\<rparr>\<close>

definition airflow_introduction_c08 :: cell where
  \<open>airflow_introduction_c08 =
    \<lparr>cell_type = Markdown, source = [
        ''# Run Airflow\<newline>'',
        ''Taken from [Quick Start](https://airflow.apache.org/docs/stable/start.html):'']\<rparr>\<close>

definition airflow_introduction_c09 :: cell where
  \<open>airflow_introduction_c09 =
    \<lparr>cell_type = Code, source = [
        ''# install from pypi using pip\<newline>'',
        ''!pip install apache-airflow==1.8.1'']\<rparr>\<close>

definition airflow_introduction_c10 :: cell where
  \<open>airflow_introduction_c10 =
    \<lparr>cell_type = Code, source = [
        ''# initialize the database\<newline>'',
        ''!conda list werkzeug'']\<rparr>\<close>

definition airflow_introduction_c11 :: cell where
  \<open>airflow_introduction_c11 =
    \<lparr>cell_type = Code, source = [
        ''# start the web server, default port is 8080\<newline>'',
        ''!airflow webserver -p 8080'']\<rparr>\<close>

definition airflow_introduction_c12 :: cell where
  \<open>airflow_introduction_c12 =
    \<lparr>cell_type = Code, source = []\<rparr>\<close>

definition airflow_introduction :: "cell list" where
  \<open>airflow_introduction = [airflow_introduction_c00, airflow_introduction_c01,
     airflow_introduction_c02, airflow_introduction_c03, airflow_introduction_c04,
     airflow_introduction_c05, airflow_introduction_c06, airflow_introduction_c07,
     airflow_introduction_c08, airflow_introduction_c09, airflow_introduction_c10,
     airflow_introduction_c11, airflow_introduction_c12]\<close>


definition dvc_introduction_c00 :: cell where
  \<open>dvc_introduction_c00 =
    \<lparr>cell_type = Markdown, source = [
        ''# Lightweight Development Pipelines with DVC\<newline>'',
        ''\<newline>'',
        ''In this notebook we will highlight important elements of DVC. You can find extensive information on their [website](https://dvc.org).\<newline>'',
        ''\<newline>'',
        ''As a showcase we will implement a simple regression pipeline.'']\<rparr>\<close>

definition dvc_introduction_c01 :: cell where
  \<open>dvc_introduction_c01 =
    \<lparr>cell_type = Markdown, source = [
        ''### Some Preparations\<newline>'',
        ''We create a new directory, copy some files and change the cwd.'']\<rparr>\<close>

definition dvc_introduction_c02 :: cell where
  \<open>dvc_introduction_c02 =
    \<lparr>cell_type = Code, source = [
        ''%%bash\<newline>'',
        ''mkdir /workshop/workspace/dvc_intro -p\<newline>'',
        ''cp /workshop/notebooks/dvc/{dvc_exercise.py,deployment_location,dvc_introduction.py,params.yaml} /workshop/workspace/dvc_intro\<newline>'',
        ''cp -r /workshop/notebooks/dvc/data /workshop/workspace/dvc_intro'']\<rparr>\<close>

definition dvc_introduction_c03 :: cell where
  \<open>dvc_introduction_c03 =
    \<lparr>cell_type = Code, source = [
        ''import os\<newline>'',
        ''os.chdir("/workshop/workspace/dvc_intro")'']\<rparr>\<close>

definition dvc_introduction_c04 :: cell where
  \<open>dvc_introduction_c04 =
    \<lparr>cell_type = Markdown, source = [
        ''### Initialize Git'']\<rparr>\<close>

definition dvc_introduction_c05 :: cell where
  \<open>dvc_introduction_c05 =
    \<lparr>cell_type = Markdown, source = [
        ''DVC works on top of git..'']\<rparr>\<close>

definition dvc_introduction_c06 :: cell where
  \<open>dvc_introduction_c06 =
    \<lparr>cell_type = Code, source = [
        ''!git init'']\<rparr>\<close>

definition dvc_introduction_c07 :: cell where
  \<open>dvc_introduction_c07 =
    \<lparr>cell_type = Markdown, source = [
        ''You might want to set your git configuration.'']\<rparr>\<close>

definition dvc_introduction_c08 :: cell where
  \<open>dvc_introduction_c08 =
    \<lparr>cell_type = Code, source = [
        ''!git config --global user.email "you@example.com"\<newline>'',
        ''!git config --global user.name "Your Name"'']\<rparr>\<close>

definition dvc_introduction_c09 :: cell where
  \<open>dvc_introduction_c09 =
    \<lparr>cell_type = Markdown, source = [
        ''### Initialize DVC'']\<rparr>\<close>

definition dvc_introduction_c10 :: cell where
  \<open>dvc_introduction_c10 =
    \<lparr>cell_type = Code, source = [
        ''!dvc init -f'']\<rparr>\<close>

definition dvc_introduction_c11 :: cell where
  \<open>dvc_introduction_c11 =
    \<lparr>cell_type = Markdown, source = [
        ''We can either add files to our versioning system by manually adding them or implicitly in a pipeline.'']\<rparr>\<close>

definition dvc_introduction_c12 :: cell where
  \<open>dvc_introduction_c12 =
    \<lparr>cell_type = Code, source = [
        ''!dvc add data/image.jpg'']\<rparr>\<close>

definition dvc_introduction_c13 :: cell where
  \<open>dvc_introduction_c13 =
    \<lparr>cell_type = Markdown, source = [
        ''Optional: We add a new remote storage (could be S3, GCS, SSH, ...)'']\<rparr>\<close>

definition dvc_introduction_c14 :: cell where
  \<open>dvc_introduction_c14 =
    \<lparr>cell_type = Code, source = [
        ''!dvc remote add -d -f local_storage /tmp/dvc_introduction'']\<rparr>\<close>

definition dvc_introduction_c15 :: cell where
  \<open>dvc_introduction_c15 =
    \<lparr>cell_type = Code, source = [
        ''!git status'']\<rparr>\<close>

definition dvc_introduction_c16 :: cell where
  \<open>dvc_introduction_c16 =
    \<lparr>cell_type = Code, source = [
        ''!git add .'']\<rparr>\<close>

definition dvc_introduction_c17 :: cell where
  \<open>dvc_introduction_c17 =
    \<lparr>cell_type = Code, source = [
        ''!git commit -m "initial commit"'']\<rparr>\<close>

definition dvc_introduction_c18 :: cell where
  \<open>dvc_introduction_c18 =
    \<lparr>cell_type = Markdown, source = [
        ''Let's check our current status. Attention: DVC does not have a sophisticated git-like `stage area`, but a cache-directory, that is being synced with the remote.'']\<rparr>\<close>

definition dvc_introduction_c19 :: cell where
  \<open>dvc_introduction_c19 =
    \<lparr>cell_type = Code, source = [
        ''!dvc status -c'']\<rparr>\<close>

definition dvc_introduction_c20 :: cell where
  \<open>dvc_introduction_c20 =
    \<lparr>cell_type = Code, source = [
        ''!dvc push'']\<rparr>\<close>

definition dvc_introduction_c21 :: cell where
  \<open>dvc_introduction_c21 =
    \<lparr>cell_type = Markdown, source = [
        ''### Building a Pipeline'']\<rparr>\<close>

definition dvc_introduction_c22 :: cell where
  \<open>dvc_introduction_c22 =
    \<lparr>cell_type = Code, source = [
        ''%%sh\<newline>'',
        (''dvc run -n download '' @ [CHR 0x5C] @ ''\<newline>''),
        ('' -d dvc_introduction.py '' @ [CHR 0x5C] @ ''\<newline>''),
        ('' -d http://archive.ics.uci.edu/ml/machine-learning-databases/wine-quality/winequality-red.csv '' @ [CHR 0x5C] @ ''\<newline>''),
        ('' -o data/winequality-red.csv '' @ [CHR 0x5C] @ ''\<newline>''),
        ''python dvc_introduction.py download_data http://archive.ics.uci.edu/ml/machine-learning-databases/wine-quality/winequality-red.csv data/winequality-red.csv'']\<rparr>\<close>

definition dvc_introduction_c23 :: cell where
  \<open>dvc_introduction_c23 =
    \<lparr>cell_type = Code, source = [
        ''%%sh \<newline>'',
        (''dvc run -n split '' @ [CHR 0x5C] @ ''\<newline>''),
        (''-d dvc_introduction.py '' @ [CHR 0x5C] @ ''\<newline>''),
        (''-d data/winequality-red.csv '' @ [CHR 0x5C] @ ''\<newline>''),
        (''-o data/x_train.csv -o data/y_train.csv -o data/x_test.csv -o data/y_test.csv '' @ [CHR 0x5C] @ ''\<newline>''),
        ''python dvc_introduction.py split_data data/winequality-red.csv'']\<rparr>\<close>

definition dvc_introduction_c24 :: cell where
  \<open>dvc_introduction_c24 =
    \<lparr>cell_type = Code, source = [
        ''%%sh \<newline>'',
        (''dvc run -n train '' @ [CHR 0x5C] @ ''\<newline>''),
        (''-d dvc_introduction.py '' @ [CHR 0x5C] @ ''\<newline>''),
        (''-d data/x_train.csv -d data/y_train.csv '' @ [CHR 0x5C] @ ''\<newline>''),
        (''-o data/model '' @ [CHR 0x5C] @ ''\<newline>''),
        (''-p alpha,l1_ratio '' @ [CHR 0x5C] @ ''\<newline>''),
        ''python dvc_introduction.py train_model data/x_train.csv data/y_train.csv'']\<rparr>\<close>

definition dvc_introduction_c25 :: cell where
  \<open>dvc_introduction_c25 =
    \<lparr>cell_type = Code, source = [
        ''%%sh\<newline>'',
        (''dvc run -n evaluate '' @ [CHR 0x5C] @ ''\<newline>''),
        (''-d dvc_introduction.py '' @ [CHR 0x5C] @ ''\<newline>''),
        (''-d data/model -d data/x_test.csv -d data/y_test.csv '' @ [CHR 0x5C] @ ''\<newline>''),
        (''-m data/result.json '' @ [CHR 0x5C] @ ''\<newline>''),
        ''python dvc_introduction.py evaluate_model data/model data/x_test.csv data/y_test.csv'']\<rparr>\<close>

definition dvc_introduction_c26 :: cell where
  \<open>dvc_introduction_c26 =
    \<lparr>cell_type = Code, source = [
        ''!git add .\<newline>'',
        ''!git commit -m "Add pipeline"'']\<rparr>\<close>

definition dvc_introduction_c27 :: cell where
  \<open>dvc_introduction_c27 =
    \<lparr>cell_type = Markdown, source = [
        ''### Inspecting and Modifying a Pipeline '']\<rparr>\<close>

definition dvc_introduction_c28 :: cell where
  \<open>dvc_introduction_c28 =
    \<lparr>cell_type = Code, source = [
        ''!dvc dag'']\<rparr>\<close>

definition dvc_introduction_c29 :: cell where
  \<open>dvc_introduction_c29 =
    \<lparr>cell_type = Code, source = [
        ''!dvc status -c'']\<rparr>\<close>

definition dvc_introduction_c30 :: cell where
  \<open>dvc_introduction_c30 =
    \<lparr>cell_type = Code, source = [
        ''!dvc push'']\<rparr>\<close>

definition dvc_introduction_c31 :: cell where
  \<open>dvc_introduction_c31 =
    \<lparr>cell_type = Code, source = [
        ''!dvc status -c'']\<rparr>\<close>

definition dvc_introduction_c32 :: cell where
  \<open>dvc_introduction_c32 =
    \<lparr>cell_type = Markdown, source = [
        ''Let's modify a file and reproduce our pipeline!'']\<rparr>\<close>

definition dvc_introduction_c33 :: cell where
  \<open>dvc_introduction_c33 =
    \<lparr>cell_type = Code, source = [
        ''!dvc status'']\<rparr>\<close>

definition dvc_introduction_c34 :: cell where
  \<open>dvc_introduction_c34 =
    \<lparr>cell_type = Code, source = [
        ''!dvc repro'']\<rparr>\<close>

definition dvc_introduction_c35 :: cell where
  \<open>dvc_introduction_c35 =
    \<lparr>cell_type = Markdown, source = [
        ''### Compare Experiments'']\<rparr>\<close>

definition dvc_introduction_c36 :: cell where
  \<open>dvc_introduction_c36 =
    \<lparr>cell_type = Code, source = [
        (''!sed -i -e "s/alpha:'' @ [CHR 0x5C] @ ''s0.5/alpha: 0.6/g" params.yaml'')]\<rparr>\<close>

definition dvc_introduction_c37 :: cell where
  \<open>dvc_introduction_c37 =
    \<lparr>cell_type = Code, source = [
        ''!dvc repro\<newline>'',
        ''!dvc metrics diff'']\<rparr>\<close>

definition dvc_introduction_c38 :: cell where
  \<open>dvc_introduction_c38 =
    \<lparr>cell_type = Markdown, source = [
        ''It is also possible to compare results from different branches.'']\<rparr>\<close>

definition dvc_introduction_c39 :: cell where
  \<open>dvc_introduction_c39 =
    \<lparr>cell_type = Code, source = [
        ''%%bash\<newline>'',
        ''git checkout -b experiment_1\<newline>'',
        ''git add .\<newline>'',
        ''git commit -m "changed parameter alpha"\<newline>'',
        ''\<newline>'',
        ''dvc metrics diff master experiment_1'']\<rparr>\<close>

definition dvc_introduction_c40 :: cell where
  \<open>dvc_introduction_c40 =
    \<lparr>cell_type = Markdown, source = [
        ''#### More Features'']\<rparr>\<close>

definition dvc_introduction_c41 :: cell where
  \<open>dvc_introduction_c41 =
    \<lparr>cell_type = Markdown, source = [
        ''Get a file from another (external) git+DVC repository.'']\<rparr>\<close>

definition dvc_introduction_c42 :: cell where
  \<open>dvc_introduction_c42 =
    \<lparr>cell_type = Code, source = [
        ''!dvc get https://github.com/iterative/example-get-started model.pkl'']\<rparr>\<close>

definition dvc_introduction_c43 :: cell where
  \<open>dvc_introduction_c43 =
    \<lparr>cell_type = Code, source = [
        ''!rm model.pkl'']\<rparr>\<close>

definition dvc_introduction_c44 :: cell where
  \<open>dvc_introduction_c44 =
    \<lparr>cell_type = Markdown, source = [
        ''Get a file *including* its .dvc file from another (external) git+DVC repository.'']\<rparr>\<close>

definition dvc_introduction_c45 :: cell where
  \<open>dvc_introduction_c45 =
    \<lparr>cell_type = Code, source = [
        ''!dvc import https://github.com/iterative/example-get-started model.pkl'']\<rparr>\<close>

definition dvc_introduction_c46 :: cell where
  \<open>dvc_introduction_c46 =
    \<lparr>cell_type = Code, source = [
        ''!cat model.pkl.dvc'']\<rparr>\<close>

definition dvc_introduction_c47 :: cell where
  \<open>dvc_introduction_c47 =
    \<lparr>cell_type = Markdown, source = [
        ''#### Clean-up'']\<rparr>\<close>

definition dvc_introduction_c48 :: cell where
  \<open>dvc_introduction_c48 =
    \<lparr>cell_type = Code, source = [
        ''import os\<newline>'',
        ''os.chdir("/workshop/notebooks/dvc")'']\<rparr>\<close>

definition dvc_introduction_c49 :: cell where
  \<open>dvc_introduction_c49 =
    \<lparr>cell_type = Code, source = [
        ''%%sh\<newline>'',
        ''rm -rf /workshop/workspace/dvc_intro\<newline>'',
        ''rm -rf /tmp/dvc_introduction'']\<rparr>\<close>

definition dvc_introduction_c50 :: cell where
  \<open>dvc_introduction_c50 =
    \<lparr>cell_type = Code, source = []\<rparr>\<close>

definition dvc_introduction :: "cell list" where
  \<open>dvc_introduction = [dvc_introduction_c00, dvc_introduction_c01, dvc_introduction_c02,
     dvc_introduction_c03, dvc_introduction_c04, dvc_introduction_c05, dvc_introduction_c06,
     dvc_introduction_c07, dvc_introduction_c08, dvc_introduction_c09, dvc_introduction_c10,
     dvc_introduction_c11, dvc_introduction_c12, dvc_introduction_c13, dvc_introduction_c14,
     dvc_introduction_c15, dvc_introduction_c16, dvc_introduction_c17, dvc_introduction_c18,
     dvc_introduction_c19, dvc_introduction_c20, dvc_introduction_c21, dvc_introduction_c22,
     dvc_introduction_c23, dvc_introduction_c24, dvc_introduction_c25, dvc_introduction_c26,
     dvc_introduction_c27, dvc_introduction_c28, dvc_introduction_c29, dvc_introduction_c30,
     dvc_introduction_c31, dvc_introduction_c32, dvc_introduction_c33, dvc_introduction_c34,
     dvc_introduction_c35, dvc_introduction_c36, dvc_introduction_c37, dvc_introduction_c38,
     dvc_introduction_c39, dvc_introduction_c40, dvc_introduction_c41, dvc_introduction_c42,
     dvc_introduction_c43, dvc_introduction_c44, dvc_introduction_c45, dvc_introduction_c46,
     dvc_introduction_c47, dvc_introduction_c48, dvc_introduction_c49,
     dvc_introduction_c50]\<close>


definition fastapi_introduction_c00 :: cell where
  \<open>fastapi_introduction_c00 =
    \<lparr>cell_type = Markdown, source = [
        ''# FastAPI - Building fast and scalable REST APIs with Python\<newline>'',
        ''\<newline>'',
        ''From the FastAPI docs: *FastAPI is a modern, fast (high-performance), web framework for building APIs with Python 3.6+ based on standard Python type hints.*\<newline>'',
        ''\<newline>'',
        ''As data scientists we usually build models that are trained on data and optimised on some metrics. At some point, a model needs to be integrated into existing processes, systems and applications. One way to do this is build a microservice that is running inference. FastAPI is a framework that will help us to build a quick REST API that can be integrated into the existing enterprise landscape. '']\<rparr>\<close>

definition fastapi_introduction_c01 :: cell where
  \<open>fastapi_introduction_c01 =
    \<lparr>cell_type = Markdown, source = [
        ''## What is a REST API?\<newline>'',
        ''If REST APIs are new to you, feel free to read this article [API Guide for Data Scientists](https://towardsdatascience.com/api-guide-for-data-scientists-e373f997ed61).'']\<rparr>\<close>

definition fastapi_introduction_c02 :: cell where
  \<open>fastapi_introduction_c02 =
    \<lparr>cell_type = Markdown, source = [
        ''## Why is FastAPI a great choice for inference?\<newline>'',
        ''- High Performance: FastAPI sits on top of Starlette and Pydantic. Starlette is a very low level API framework. FastAPI provides a great abstraction around the Startlette Framework. Compared to other language like NodeJS and Go it provides a similar performance and is on one of the fastest Python frameworks that is available.\<newline>'',
        ''- Huge productivity: It's very fast to code with FastAPI. In the docs they say the following: *Increase the speed to develop features by about 200% to 300%.*\<newline>'',
        ''- Fewer bugs: Reduce about 40% of human (developer) induced errors. *\<newline>'',
        ''- Intuitive: Great editor support. Completion everywhere. Less time debugging.\<newline>'',
        ''- Easy: Designed to be easy to use and learn. Less time reading docs.\<newline>'',
        ''- Short: Minimize code duplication. Multiple features from each parameter declaration. Fewer bugs.\<newline>'',
        ''- Robust: Get production-ready code. With automatic interactive documentation.\<newline>'',
        ''- Standards-based: Based on (and fully compatible with) the open standards for APIs: OpenAPI (previously known as Swagger) and JSON Schema.'']\<rparr>\<close>

definition fastapi_introduction_c03 :: cell where
  \<open>fastapi_introduction_c03 =
    \<lparr>cell_type = Markdown, source = [
        ''## Let's jump straight into the framework'']\<rparr>\<close>

definition fastapi_introduction_c04 :: cell where
  \<open>fastapi_introduction_c04 =
    \<lparr>cell_type = Code, source = [
        ''# Installing fastapi and uvicorn to the run the application\<newline>'',
        ''!pip install fastapi uvicorn'']\<rparr>\<close>

definition fastapi_introduction_c05 :: cell where
  \<open>fastapi_introduction_c05 =
    \<lparr>cell_type = Markdown, source = [
        ''Exercise: run the cell below open the API in the browser (localhost:7777/docs) and execute a calculation'']\<rparr>\<close>

definition fastapi_introduction_c06 :: cell where
  \<open>fastapi_introduction_c06 =
    \<lparr>cell_type = Code, source = [
        ''!uvicorn hello_world_app:app --port 7777 --host 0.0.0.0'']\<rparr>\<close>

definition fastapi_introduction_c07 :: cell where
  \<open>fastapi_introduction_c07 =
    \<lparr>cell_type = Markdown, source = [
        ''# Let's add inference'']\<rparr>\<close>

definition fastapi_introduction_c08 :: cell where
  \<open>fastapi_introduction_c08 =
    \<lparr>cell_type = Code, source = [
        ''!uvicorn main:app --port 7777 --host 0.0.0.0'']\<rparr>\<close>

definition fastapi_introduction :: "cell list" where
  \<open>fastapi_introduction = [fastapi_introduction_c00, fastapi_introduction_c01,
     fastapi_introduction_c02, fastapi_introduction_c03, fastapi_introduction_c04,
     fastapi_introduction_c05, fastapi_introduction_c06, fastapi_introduction_c07,
     fastapi_introduction_c08]\<close>


definition airflow_part_001_c00 :: cell where
  \<open>airflow_part_001_c00 =
    \<lparr>cell_type = Markdown, source = [
        ''# Airflow Classification Pipeline'']\<rparr>\<close>

definition airflow_part_001_c01 :: cell where
  \<open>airflow_part_001_c01 =
    \<lparr>cell_type = Markdown, source = [
        ''Let's have a look at some of the components that Airflow provides. Please note: Airflow DAGs are to be specified in `.py` files, not Jupyter notebooks. This notebook only serves the presentation purpose and can not be directly used in Airflow.'']\<rparr>\<close>

definition airflow_part_001_c02 :: cell where
  \<open>airflow_part_001_c02 =
    \<lparr>cell_type = Markdown, source = [
        ''# Directed Acyclic Graph (DAG)\<newline>'',
        ''\<newline>'',
        ''Each Airflow pipeline has to be a directed acyclic graph (i.e. no loops, clear task dependencies).\<newline>'',
        ''We define a DAG in the following way:\<newline>'',
        ''\<newline>'',
        ''```python\<newline>'',
        ''from airflow import DAG\<newline>'',
        ''\<newline>'',
        ''# the default args will be passed to all tasks belonging to the DAG\<newline>'',
        ''default_args = {\<newline>'',
        ''    'owner': 'airflow',\<newline>'',
        ''    'start_date': datetime(2019, 8, 1),\<newline>'',
        ''    ...\<newline>'',
        ''}\<newline>'',
        ''\<newline>'',
        ''dag = DAG(\<newline>'',
        ''    'jupyter2production-pipeline',\<newline>'',
        ''    default_args=default_args,\<newline>'',
        ''    schedule_interval=timedelta(days=1),\<newline>'',
        ''    ...\<newline>'',
        '')\<newline>'',
        ''\<newline>'',
        ''```\<newline>'',
        ''\<newline>'',
        ''DAGs need to be placed into the folder `$AIRFLOW_HOME/dags`, where `$AIRFLOW_HOME` is usually set to `/usr/local/airflow`.'']\<rparr>\<close>

definition airflow_part_001_c03 :: cell where
  \<open>airflow_part_001_c03 =
    \<lparr>cell_type = Markdown, source = [
        ''# Operators\<newline>'',
        ''\<newline>'',
        ''Each pipeline consists of steps, which are called operators. Operators execute some kind of task and finish when the task is done.\<newline>'',
        ''Examples: `BashOperator`, `PythonOperator`, `DockerOperator`, `PostgresOperator`, ...\<newline>'',
        ''\<newline>'',
        ''There are also sensors, a special type of operators, which finish when a condition is met (i.e. another task has finished or a file exists). Don't worry so much about the difference between a normal operator and a sensor, just lookup what fits your needs the best in the well-documented [API](http://airflow.apache.org/docs/stable/_api/airflow/operators/index.html).\<newline>'',
        ''\<newline>'',
        ''This might be the most used operator: The `PythonOperator`.\<newline>'',
        ''\<newline>'',
        ''```python\<newline>'',
        ''from airflow.operators.python_operator import PythonOperator\<newline>'',
        ''\<newline>'',
        ''def print_sth():\<newline>'',
        ''    print("Our slides are still there!")\<newline>'',
        ''    \<newline>'',
        ''python_task = PythonOperator(\<newline>'',
        ''    task_id="print",\<newline>'',
        ''    python_callable=print_sth,\<newline>'',
        ''    provide_context=False,\<newline>'',
        ''    dag=dag\<newline>'',
        '')\<newline>'',
        ''\<newline>'',
        ''```\<newline>'',
        ''Note that Airflow will pass a set of keyword arguments like `execution_date` that can be used in your function if `provide_context` is set True.\<newline>'',
        ''\<newline>'',
        ''This is an example of a sensor:\<newline>'',
        ''\<newline>'',
        ''```python\<newline>'',
        ''from airflow.contrib.sensors.file_sensor import FileSensor\<newline>'',
        ''\<newline>'',
        ''fs_task = FileSensor(\<newline>'',
        ''    task_id="lookup_file",\<newline>'',
        ''    filepath="/jupyter2production/slides/slides.pdf",\<newline>'',
        ''    dag=dag\<newline>'',
        '')\<newline>'',
        ''```\<newline>'',
        ''\<newline>'']\<rparr>\<close>

definition airflow_part_001_c04 :: cell where
  \<open>airflow_part_001_c04 =
    \<lparr>cell_type = Markdown, source = [
        ''# Connecting Operators\<newline>'',
        ''\<newline>'',
        ''Airflow uses the bitshift operators `>>` and `<<` to connect pipeline steps together (you can also use `set_upstream()` or `set_downstream()`, but just don't...).\<newline>'',
        ''\<newline>'',
        ''`task1 >> task2` means: `task1` will be executed before `task2`, and vice versa for `<<`.\<newline>'',
        ''\<newline>'',
        ''**Tip**: Only use the `>>` to keep your code consistent and readable.\<newline>'',
        ''\<newline>'',
        ''Let's connect our operator and sensor that we defined above:\<newline>'',
        ''\<newline>'',
        ''```python\<newline>'',
        ''fs_task >> python_task\<newline>'',
        ''```\<newline>'',
        ''\<newline>'',
        ''That's it!'']\<rparr>\<close>

definition airflow_part_001_c05 :: cell where
  \<open>airflow_part_001_c05 =
    \<lparr>cell_type = Markdown, source = [
        ''# XCom\<newline>'',
        ''\<newline>'',
        ''Ideally all of our operators and sensors are independent of each other, that is: No variables, states etc. should have to be communicated between them. This allows an easy exchange of tasks. Since we cannot always avoid communication between tasks, Airflow provides the XCom (_cross-communication_) system, which follows a simple push-pull idea.\<newline>'',
        ''\<newline>'',
        ''You can push a variable in an operator via `xcom_push()` or the `return` statement, and pull (i.e. get) the variable in an other task by `xcom_pull()`.\<newline>'',
        ''\<newline>'',
        ''This is an example, how two python operators could communicate with each other via XCom:\<newline>'',
        ''\<newline>'',
        ''```python\<newline>'',
        ''def foo():\<newline>'',
        ''    x = "hello world"\<newline>'',
        ''    return x\<newline>'',
        ''\<newline>'',
        ''\<newline>'',
        ''def bar(**context):\<newline>'',
        ''    x = context["task_instance"].xcom_pull(task_ids="task1")\<newline>'',
        ''    print(x)\<newline>'',
        ''    \<newline>'',
        ''    \<newline>'',
        ''task1 = PythonOperator(\<newline>'',
        ''    task_id="task1",\<newline>'',
        ''    python_callable=foo,\<newline>'',
        '')\<newline>'',
        ''\<newline>'',
        ''task2 = PythonOperator(\<newline>'',
        ''    task_id="task2",\<newline>'',
        ''    python_callable=bar,\<newline>'',
        ''    provide_context=True,\<newline>'',
        '')\<newline>'',
        ''\<newline>'',
        ''task1 >> task2\<newline>'',
        ''```\<newline>'',
        ''\<newline>'',
        ''**Note**: The pulling task needs to be provided with context.'']\<rparr>\<close>

definition airflow_part_001_c06 :: cell where
  \<open>airflow_part_001_c06 =
    \<lparr>cell_type = Markdown, source = [
        ''# The web interface\<newline>'',
        ''\<newline>'',
        ''To monitor and manage your pipelines, Airflow offers a web interface. You can find it today at [localhost:8080](http://localhost:8080)'']\<rparr>\<close>

definition airflow_part_001_c07 :: cell where
  \<open>airflow_part_001_c07 =
    \<lparr>cell_type = Markdown, source = [
        ''# There is so much more!\<newline>'',
        ''\<newline>'',
        ''Airflow has many concepts to offer, which allow a robust but flexible execution. Some highlights are:\<newline>'',
        ''- Error and retry management\<newline>'',
        ''- Different executors (Celery, Sequential, Local), allowing for parallel execution on multiple nodes\<newline>'',
        ''- Integration with GCP, AWS, Azure, ...\<newline>'',
        ''\<newline>'',
        ''Check out the [documentation page](https://airflow.apache.org/) for more information.'']\<rparr>\<close>

definition airflow_part_001 :: "cell list" where
  \<open>airflow_part_001 = [airflow_part_001_c00, airflow_part_001_c01, airflow_part_001_c02,
     airflow_part_001_c03, airflow_part_001_c04, airflow_part_001_c05, airflow_part_001_c06,
     airflow_part_001_c07]\<close>


definition fastapi_part_002_c00 :: cell where
  \<open>fastapi_part_002_c00 =
    \<lparr>cell_type = Markdown, source = [
        ''# FastAPI - Building fast and scalable REST APIs with Python\<newline>'',
        ''\<newline>'',
        ''From the FastAPI docs: *FastAPI is a modern, fast (high-performance), web framework for building APIs with Python 3.6+ based on standard Python type hints.*\<newline>'',
        ''\<newline>'',
        ''As data scientists we usually build models that are trained on data and optimised on some metrics. At some point, a model needs to be integrated into existing processes, systems and applications. One way to do this is build a microservice that is running inference. FastAPI is a framework that will help us to build a quick REST API that can be integrated into the existing enterprise landscape. '']\<rparr>\<close>

definition fastapi_part_002_c01 :: cell where
  \<open>fastapi_part_002_c01 =
    \<lparr>cell_type = Markdown, source = [
        ''## What is a REST API?\<newline>'',
        ''If REST APIs are new to you, feel free to read this article [API Guide for Data Scientists](https://towardsdatascience.com/api-guide-for-data-scientists-e373f997ed61).'']\<rparr>\<close>

definition fastapi_part_002_c02 :: cell where
  \<open>fastapi_part_002_c02 =
    \<lparr>cell_type = Markdown, source = [
        ''## Why is FastAPI a great choice for inference?\<newline>'',
        ''- High Performance: FastAPI sits on top of Starlette and Pydantic. Starlette is a very low level API framework. FastAPI provides a great abstraction around the Startlette Framework. Compared to other language like NodeJS and Go it provides a similar performance and is on one of the fastest Python frameworks that is available.\<newline>'',
        ''- Huge productivity: It's very fast to code with FastAPI. In the docs they say the following: *Increase the speed to develop features by about 200% to 300%.*\<newline>'',
        ''- Fewer bugs: Reduce about 40% of human (developer) induced errors. *\<newline>'',
        ''- Intuitive: Great editor support. Completion everywhere. Less time debugging.\<newline>'',
        ''- Easy: Designed to be easy to use and learn. Less time reading docs.\<newline>'',
        ''- Short: Minimize code duplication. Multiple features from each parameter declaration. Fewer bugs.\<newline>'',
        ''- Robust: Get production-ready code. With automatic interactive documentation.\<newline>'',
        ''- Standards-based: Based on (and fully compatible with) the open standards for APIs: OpenAPI (previously known as Swagger) and JSON Schema.'']\<rparr>\<close>

definition fastapi_part_002_c03 :: cell where
  \<open>fastapi_part_002_c03 =
    \<lparr>cell_type = Markdown, source = [
        ''## Let's jump straight into the framework'']\<rparr>\<close>

definition fastapi_part_002_c04 :: cell where
  \<open>fastapi_part_002_c04 =
    \<lparr>cell_type = Code, source = [
        ''# Installing fastapi and uvicorn to the run the application\<newline>'',
        ''!pip install fastapi uvicorn onnxruntime'']\<rparr>\<close>

definition fastapi_part_002_c05 :: cell where
  \<open>fastapi_part_002_c05 =
    \<lparr>cell_type = Markdown, source = [
        ''Exercise: run the cell below open the API in the browser (localhost:7777/docs) and execute a calculation'']\<rparr>\<close>

definition fastapi_part_002_c06 :: cell where
  \<open>fastapi_part_002_c06 =
    \<lparr>cell_type = Code, source = [
        ''!uvicorn hello_world_app:app --port 7777 --host 0.0.0.0'']\<rparr>\<close>

definition fastapi_part_002_c07 :: cell where
  \<open>fastapi_part_002_c07 =
    \<lparr>cell_type = Markdown, source = [
        ''# Let's add inference'']\<rparr>\<close>

definition fastapi_part_002_c08 :: cell where
  \<open>fastapi_part_002_c08 =
    \<lparr>cell_type = Code, source = [
        ''!uvicorn main:app --port 7777 --host 0.0.0.0'']\<rparr>\<close>

definition fastapi_part_002_c09 :: cell where
  \<open>fastapi_part_002_c09 =
    \<lparr>cell_type = Code, source = []\<rparr>\<close>

definition fastapi_part_002 :: "cell list" where
  \<open>fastapi_part_002 = [fastapi_part_002_c00, fastapi_part_002_c01, fastapi_part_002_c02,
     fastapi_part_002_c03, fastapi_part_002_c04, fastapi_part_002_c05, fastapi_part_002_c06,
     fastapi_part_002_c07, fastapi_part_002_c08, fastapi_part_002_c09]\<close>


definition kedro_part_002_c00 :: cell where
  \<open>kedro_part_002_c00 =
    \<lparr>cell_type = Markdown, source = [
        ''# Task: Extend Kedro Pipeline\<newline>'',
        ''\<newline>'',
        ''In this exercise, you will get more familier with Kedro by extending the workflow pipeline shown in the introduction.\<newline>'',
        ''\<newline>'',
        ''**Note that the introduction notebook should be run prior to this exercise.**\<newline>'',
        ''\<newline>'',
        ''Let's first change the working directory to the existing project.'']\<rparr>\<close>

definition kedro_part_002_c01 :: cell where
  \<open>kedro_part_002_c01 =
    \<lparr>cell_type = Code, source = [
        ''import os\<newline>'',
        ''os.chdir("/workshop/workspace/workflow-tutorial")'']\<rparr>\<close>

definition kedro_part_002_c02 :: cell where
  \<open>kedro_part_002_c02 =
    \<lparr>cell_type = Markdown, source = [
        ''## Subtask I: Add additional node to pipeline'']\<rparr>\<close>

definition kedro_part_002_c03 :: cell where
  \<open>kedro_part_002_c03 =
    \<lparr>cell_type = Markdown, source = [
        ''After training the model, it should be evaluated. Create a new Kedro `node` that takes as input the model, and the features `x_test` and target `y_test`.\<newline>'',
        ''\<newline>'',
        ''The output should be `evaluation_metric`: a json including several metrics.\<newline>'',
        ''\<newline>'',
        ''The following function can be used.'']\<rparr>\<close>

definition kedro_part_002_c04 :: cell where
  \<open>kedro_part_002_c04 =
    \<lparr>cell_type = Code, source = [
        ''from typing import Dict\<newline>'',
        ''import numpy as np\<newline>'',
        ''\<newline>'',
        ''from sklearn.pipeline import Pipeline\<newline>'',
        ''from sklearn.metrics import mean_squared_error, mean_absolute_error, r2_score\<newline>'',
        ''\<newline>'',
        ''def evaluate_model(pipe: Pipeline, x_test: np.ndarray, y_test: np.ndarray) -> Dict:\<newline>'',
        ''    """Calculate the coefficient of determination and log the result.\<newline>'',
        ''\<newline>'',
        ''        Args:\<newline>'',
        ''            pipe: Trained model.\<newline>'',
        ''            X_test: Testing data of independent features.\<newline>'',
        ''            y_test: Target.\<newline>'',
        ''        Returns:\<newline>'',
        ''            json with scores\<newline>'',
        ''\<newline>'',
        ''    """\<newline>'',
        ''    y_pred = pipe.predict(x_test)\<newline>'',
        ''    rmse = np.sqrt(mean_squared_error(y_test, y_pred))\<newline>'',
        ''    mae = mean_absolute_error(y_test, y_pred)\<newline>'',
        ''    r2 = r2_score(y_test, y_pred)\<newline>'',
        ''\<newline>'',
        ''    mlflow.log_metric("rmse", rmse)\<newline>'',
        ''    mlflow.log_metric("mae", mae)\<newline>'',
        ''    mlflow.log_metric("r2", r2)\<newline>'',
        ''\<newline>'',
        ''    logger = logging.getLogger(__name__)\<newline>'',
        ''    logger.info("Model has a coefficient R^2 of %.3f.", r2)\<newline>'',
        ''\<newline>'',
        ''    return {"train": {"rmse": float(rmse),\<newline>'',
        ''                      "mae": float(mae),\<newline>'',
        ''                      "r2": float(r2)}}'']\<rparr>\<close>

definition kedro_part_002_c05 :: cell where
  \<open>kedro_part_002_c05 =
    \<lparr>cell_type = Markdown, source = [
        ''You need to add this function to `workspace/workflow-tutorial/src/workflow_tutorial/pipelines/nodes.py`.'']\<rparr>\<close>

definition kedro_part_002_c06 :: cell where
  \<open>kedro_part_002_c06 =
    \<lparr>cell_type = Markdown, source = [
        ''### Extend existing pipeline'']\<rparr>\<close>

definition kedro_part_002_c07 :: cell where
  \<open>kedro_part_002_c07 =
    \<lparr>cell_type = Code, source = [
        ''%%writefile src/workflow_tutorial/pipelines/pipeline.py\<newline>'',
        ''\<newline>'',
        ''from kedro.pipeline import Pipeline, node\<newline>'',
        ''\<newline>'',
        ''from .nodes import evaluate_model, split_data, train_model\<newline>'',
        ''\<newline>'',
        ''\<newline>'',
        ''def create_pipeline(**kwargs):\<newline>'',
        ''    return Pipeline(\<newline>'',
        ''        [\<newline>'',
        ''            node(\<newline>'',
        ''                func=split_data,\<newline>'',
        ''                inputs=["wines-red", "parameters"],\<newline>'',
        ''                outputs=["x_train", "x_test", "y_train", "y_test"],\<newline>'',
        ''                name="splitting_data",\<newline>'',
        ''            ),\<newline>'',
        ''            node(\<newline>'',
        ''                func=train_model,\<newline>'',
        ''                inputs=["x_train", "y_train", "parameters"],\<newline>'',
        ''                outputs="model",\<newline>'',
        ''                name="training_model",\<newline>'',
        ''            ),\<newline>'',
        ''            node(\<newline>'',
        ''                func=evaluate_model,\<newline>'',
        ''                inputs=["model", "x_test", "y_test"],\<newline>'',
        ''                outputs="evaluation_metric",\<newline>'',
        ''                name="evaluating_model",\<newline>'',
        ''            ),\<newline>'',
        ''        ]\<newline>'',
        ''    )'']\<rparr>\<close>

definition kedro_part_002_c08 :: cell where
  \<open>kedro_part_002_c08 =
    \<lparr>cell_type = Markdown, source = [
        ''### Test and visualize pipeline'']\<rparr>\<close>

definition kedro_part_002_c09 :: cell where
  \<open>kedro_part_002_c09 =
    \<lparr>cell_type = Code, source = [
        ''!kedro run'']\<rparr>\<close>

definition kedro_part_002_c10 :: cell where
  \<open>kedro_part_002_c10 =
    \<lparr>cell_type = Code, source = [
        ''!kedro viz --host=0.0.0.0 --no-browser'']\<rparr>\<close>

definition kedro_part_002_c11 :: cell where
  \<open>kedro_part_002_c11 =
    \<lparr>cell_type = Markdown, source = [
        ''## Optional Subtask II: MLflow Tracking\<newline>'',
        ''Run experiments with different parameters, preprocessing and feature engineering steps, ... and compare results with the MLflow tracking UI.'']\<rparr>\<close>

definition kedro_part_002_c12 :: cell where
  \<open>kedro_part_002_c12 =
    \<lparr>cell_type = Code, source = [
        ''!kedro run --params alpha:0.1,l1_ratio:0.1'']\<rparr>\<close>

definition kedro_part_002_c13 :: cell where
  \<open>kedro_part_002_c13 =
    \<lparr>cell_type = Code, source = [
        ''!mlflow ui --host=0.0.0.0'']\<rparr>\<close>

definition kedro_part_002_c14 :: cell where
  \<open>kedro_part_002_c14 =
    \<lparr>cell_type = Markdown, source = [
        ''## Subtask III: Add second pipeline\<newline>'',
        ''In the introduction, we have build a pipeline that predicts the quality of **red** wine.\<newline>'',
        ''Let's now build a second Pipeline that predicts the quality of **white** wine.'']\<rparr>\<close>

definition kedro_part_002_c15 :: cell where
  \<open>kedro_part_002_c15 =
    \<lparr>cell_type = Markdown, source = [
        ''### Set Parameters'']\<rparr>\<close>

definition kedro_part_002_c16 :: cell where
  \<open>kedro_part_002_c16 =
    \<lparr>cell_type = Markdown, source = [
        ''Setting the parameters..'']\<rparr>\<close>

definition kedro_part_002_c17 :: cell where
  \<open>kedro_part_002_c17 =
    \<lparr>cell_type = Code, source = [
        ''%%writefile conf/base/parameters.yml\<newline>'',
        ''test_size: 0.25\<newline>'',
        ''random_state: 42\<newline>'',
        ''\<newline>'',
        ''alpha: 0.5\<newline>'',
        ''l1_ratio: 0.5\<newline>'',
        ''    \<newline>'',
        (''white_wine_data_url: 'http://archive.ics.uci.edu/ml/machine-learning-databases/wine-quality/winequality-white.csv'' @ [CHR 0x27])]\<rparr>\<close>

definition kedro_part_002_c18 :: cell where
  \<open>kedro_part_002_c18 =
    \<lparr>cell_type = Markdown, source = [
        ''## Set up the data\<newline>'',
        ''Instead of using `wget`, create an additional node that downloads the [Wine Quality Data Set](http://archive.ics.uci.edu/ml/machine-learning-databases/wine-quality/winequality-white.csv) for white wines! You can use the following function.'']\<rparr>\<close>

definition kedro_part_002_c19 :: cell where
  \<open>kedro_part_002_c19 =
    \<lparr>cell_type = Code, source = [
        ''import pandas as pd\<newline>'',
        ''\<newline>'',
        ''def download_data(url: str) -> pd.DataFrame: \<newline>'',
        ''    """Download data from url to path\<newline>'',
        ''        Args:\<newline>'',
        ''            url: source\<newline>'',
        ''        Returns: pandas DataFrame\<newline>'',
        ''    """\<newline>'',
        ''    data = pd.read_csv(url, sep=';')\<newline>'',
        ''    \<newline>'',
        ''    logger = logging.getLogger(__name__)\<newline>'',
        ''    logger.info(f"Data downloaded from {url}")\<newline>'',
        ''\<newline>'',
        ''    return data'']\<rparr>\<close>

definition kedro_part_002_c20 :: cell where
  \<open>kedro_part_002_c20 =
    \<lparr>cell_type = Markdown, source = [
        ''### Register the datasets\<newline>'',
        ''Register the dataset in the catalog! Note that the function `download_data` already knows that the file should be loaded with `;` as separator.'']\<rparr>\<close>

definition kedro_part_002_c21 :: cell where
  \<open>kedro_part_002_c21 =
    \<lparr>cell_type = Code, source = [
        ''%%writefile conf/base/catalog.yml\<newline>'',
        ''\<newline>'',
        ''wines-red:\<newline>'',
        ''  type: pandas.CSVDataSet\<newline>'',
        ''  filepath: data/01_raw/winequality-red.csv\<newline>'',
        ''  load_args:\<newline>'',
        (''    sep: ';'' @ [CHR 0x27] @ ''\<newline>''),
        ''\<newline>'',
        ''wines-white:\<newline>'',
        ''  type: pandas.CSVDataSet\<newline>'',
        ''  filepath: data/01_raw/winequality-white.csv'']\<rparr>\<close>

definition kedro_part_002_c22 :: cell where
  \<open>kedro_part_002_c22 =
    \<lparr>cell_type = Markdown, source = [
        ''## Create the pipeline\<newline>'',
        ''Create the new pipeline in `src/workflow_tutorial/pipelines/pipeline.py`.'']\<rparr>\<close>

definition kedro_part_002_c23 :: cell where
  \<open>kedro_part_002_c23 =
    \<lparr>cell_type = Code, source = [
        ''%%writefile src/workflow_tutorial/pipelines/pipeline.py\<newline>'',
        ''\<newline>'',
        ''from kedro.pipeline import Pipeline, node\<newline>'',
        ''\<newline>'',
        ''from .nodes import evaluate_model, split_data, train_model, download_data\<newline>'',
        ''\<newline>'',
        ''\<newline>'',
        ''def create_red_wine_pipeline(**kwargs):\<newline>'',
        ''    return Pipeline(\<newline>'',
        ''        [\<newline>'',
        ''            node(\<newline>'',
        ''                func=split_data,\<newline>'',
        ''                inputs=["wines-red", "parameters"],\<newline>'',
        ''                outputs=["x_train_red", "x_test_red", "y_train_red", "y_test_red"],\<newline>'',
        ''                name="splitting_red_wine_data",\<newline>'',
        ''            ),\<newline>'',
        ''            node(\<newline>'',
        ''                func=train_model,\<newline>'',
        ''                inputs=["x_train_red", "y_train_red", "parameters"],\<newline>'',
        ''                outputs="model_red",\<newline>'',
        ''                name="training_red_wine_model",\<newline>'',
        ''            ),\<newline>'',
        ''            node(\<newline>'',
        ''                func=evaluate_model,\<newline>'',
        ''                inputs=["model_red", "x_test_red", "y_test_red"],\<newline>'',
        ''                outputs="evaluation_metrics_red",\<newline>'',
        ''                name="evaluating_red_wine_model",\<newline>'',
        ''            ),\<newline>'',
        ''        ]\<newline>'',
        ''    )\<newline>'',
        ''\<newline>'',
        ''def create_white_wine_pipeline(**kwargs):\<newline>'',
        ''    return Pipeline(\<newline>'',
        ''        [\<newline>'',
        ''            node(\<newline>'',
        ''                func=download_data,\<newline>'',
        ''                inputs=["params:white_wine_data_url"],\<newline>'',
        ''                outputs="wines-white",\<newline>'',
        ''                name="download_white_wine_data",\<newline>'',
        ''            ),\<newline>'',
        ''            node(\<newline>'',
        ''                func=split_data,\<newline>'',
        ''                inputs=["wines-white", "parameters"],\<newline>'',
        ''                outputs=["x_train_white", "x_test_white", "y_train_white", "y_test_white"],\<newline>'',
        ''                name="splitting_white_wine_data",\<newline>'',
        ''            ),\<newline>'',
        ''            node(\<newline>'',
        ''                func=train_model,\<newline>'',
        ''                inputs=["x_train_white", "y_train_white", "parameters"],\<newline>'',
        ''                outputs="model_white",\<newline>'',
        ''                name="training_white_wine_model",\<newline>'',
        ''            ),\<newline>'',
        ''            node(\<newline>'',
        ''                func=evaluate_model,\<newline>'',
        ''                inputs=["model_white", "x_test_white", "y_test_white"],\<newline>'',
        ''                outputs="evaluation_metrics_white",\<newline>'',
        ''                name="evaluating_white_wine_model",\<newline>'',
        ''            ),\<newline>'',
        ''        ]\<newline>'',
        ''    )'']\<rparr>\<close>

definition kedro_part_002_c24 :: cell where
  \<open>kedro_part_002_c24 =
    \<lparr>cell_type = Markdown, source = [
        ''### Register the pipeline\<newline>'',
        ''You need to register the pipeline in `src/workflow_tutorial/hooks.py`.\<newline>'',
        ''\<newline>'',
        ''Note that `register_pipelines` returns `Dict[str, Pipeline]`, hence, you can return multiple pipelines for each type of wine.\<newline>'',
        ''\<newline>'',
        ''The default pipeline usually comprises all possible pipelines: You can simply add `red_wine_pipeline + white_wine_pipeline`.'']\<rparr>\<close>

definition kedro_part_002_c25 :: cell where
  \<open>kedro_part_002_c25 =
    \<lparr>cell_type = Code, source = [
        ''%%writefile src/workflow_tutorial/hooks.py\<newline>'',
        ''\<newline>'',
        ''"""Project hooks."""\<newline>'',
        ''from typing import Any, Dict, Iterable, Optional\<newline>'',
        ''\<newline>'',
        ''from kedro.config import ConfigLoader\<newline>'',
        ''from kedro.framework.hooks import hook_impl\<newline>'',
        ''from kedro.io import DataCatalog\<newline>'',
        ''from kedro.pipeline import Pipeline\<newline>'',
        ''from kedro.versioning import Journal\<newline>'',
        ''\<newline>'',
        ''from workflow_tutorial.pipelines import pipeline\<newline>'',
        ''\<newline>'',
        ''class ProjectHooks:\<newline>'',
        ''    @hook_impl\<newline>'',
        ''    def register_pipelines(self) -> Dict[str, Pipeline]:\<newline>'',
        ''        """Register the project's pipeline.\<newline>'',
        ''\<newline>'',
        ''        Returns:\<newline>'',
        ''            A mapping from a pipeline name to a ``Pipeline`` object.\<newline>'',
        ''\<newline>'',
        ''        """\<newline>'',
        ''        red_wine_pipeline = pipeline.create_red_wine_pipeline()\<newline>'',
        ''        white_wine_pipeline = pipeline.create_white_wine_pipeline()\<newline>'',
        ''        \<newline>'',
        ''        return {\<newline>'',
        ''            "red": red_wine_pipeline,\<newline>'',
        ''            "white": white_wine_pipeline,\<newline>'',
        ''            "__default__": red_wine_pipeline + white_wine_pipeline,\<newline>'',
        ''        }\<newline>'',
        ''\<newline>'',
        ''    @hook_impl\<newline>'',
        ''    def register_config_loader(self, conf_paths: Iterable[str]) -> ConfigLoader:\<newline>'',
        ''        return ConfigLoader(conf_paths)\<newline>'',
        ''\<newline>'',
        ''    @hook_impl\<newline>'',
        ''    def register_catalog(\<newline>'',
        ''        self,\<newline>'',
        ''        catalog: Optional[Dict[str, Dict[str, Any]]],\<newline>'',
        ''        credentials: Dict[str, Dict[str, Any]],\<newline>'',
        ''        load_versions: Dict[str, str],\<newline>'',
        ''        save_version: str,\<newline>'',
        ''        journal: Journal,\<newline>'',
        ''    ) -> DataCatalog:\<newline>'',
        ''        return DataCatalog.from_config(\<newline>'',
        ''            catalog, credentials, load_versions, save_version, journal\<newline>'',
        ''        )\<newline>'',
        ''\<newline>'',
        ''\<newline>'',
        ''project_hooks = ProjectHooks()'']\<rparr>\<close>

definition kedro_part_002_c26 :: cell where
  \<open>kedro_part_002_c26 =
    \<lparr>cell_type = Markdown, source = [
        ''## Run the pipeline\<newline>'',
        ''You can either run the full (default) project pipeline or a pipeline specified with the `--pipeline` option.'']\<rparr>\<close>

definition kedro_part_002_c27 :: cell where
  \<open>kedro_part_002_c27 =
    \<lparr>cell_type = Code, source = [
        ''#!kedro run --pipeline=red'']\<rparr>\<close>

definition kedro_part_002_c28 :: cell where
  \<open>kedro_part_002_c28 =
    \<lparr>cell_type = Code, source = [
        ''!kedro run -p'']\<rparr>\<close>

definition kedro_part_002_c29 :: cell where
  \<open>kedro_part_002_c29 =
    \<lparr>cell_type = Markdown, source = [
        ''## Kedro Visualization\<newline>'',
        ''Visualize the pipeline using the kedro-viz plugin.'']\<rparr>\<close>

definition kedro_part_002_c30 :: cell where
  \<open>kedro_part_002_c30 =
    \<lparr>cell_type = Code, source = [
        ''!kedro viz --host=0.0.0.0 --no-browser'']\<rparr>\<close>

definition kedro_part_002_c31 :: cell where
  \<open>kedro_part_002_c31 =
    \<lparr>cell_type = Markdown, source = [
        ''## Optional Subtask IV: Add data version control\<newline>'',
        ''Add git and data version control (DVC - already installed) to the project!'']\<rparr>\<close>

definition kedro_part_002_c32 :: cell where
  \<open>kedro_part_002_c32 =
    \<lparr>cell_type = Code, source = [
        ''!git init\<newline>'',
        ''!dvc init'']\<rparr>\<close>

definition kedro_part_002_c33 :: cell where
  \<open>kedro_part_002_c33 =
    \<lparr>cell_type = Markdown, source = [
        ''Add dvc remote storage (local).'']\<rparr>\<close>

definition kedro_part_002_c34 :: cell where
  \<open>kedro_part_002_c34 =
    \<lparr>cell_type = Code, source = [
        ''!dvc remote add -d -f local_storage /tmp/kedro'']\<rparr>\<close>

definition kedro_part_002_c35 :: cell where
  \<open>kedro_part_002_c35 =
    \<lparr>cell_type = Markdown, source = [
        ''Commit changes.'']\<rparr>\<close>

definition kedro_part_002_c36 :: cell where
  \<open>kedro_part_002_c36 =
    \<lparr>cell_type = Code, source = [
        ''# for now let's not track the mlflow runs..\<newline>'',
        (''!echo $'' @ [CHR 0x27, CHR 0x5C] @ ''nmlruns/**' >> .gitignore\<newline>''),
        ''!git add .'']\<rparr>\<close>

definition kedro_part_002_c37 :: cell where
  \<open>kedro_part_002_c37 =
    \<lparr>cell_type = Code, source = [
        ''# If necessary, configure your git..\<newline>'',
        ''#!git config --global user.email "you@example.com"\<newline>'',
        ''#!git config --global user.name "Your Name"\<newline>'',
        ''!git commit -m "initial commit"'']\<rparr>\<close>

definition kedro_part_002_c38 :: cell where
  \<open>kedro_part_002_c38 =
    \<lparr>cell_type = Markdown, source = [
        ''Add the model pickle and the metrics file to the catalog in order to not only store them as a Kedro `MemoryDataSet` but locally.'']\<rparr>\<close>

definition kedro_part_002_c39 :: cell where
  \<open>kedro_part_002_c39 =
    \<lparr>cell_type = Code, source = [
        ''%%writefile conf/base/catalog.yml\<newline>'',
        ''\<newline>'',
        ''wines-red:\<newline>'',
        ''  type: pandas.CSVDataSet\<newline>'',
        ''  filepath: data/01_raw/winequality-red.csv\<newline>'',
        ''  load_args:\<newline>'',
        (''    sep: ';'' @ [CHR 0x27] @ ''\<newline>''),
        ''\<newline>'',
        ''wines-white:\<newline>'',
        ''  type: pandas.CSVDataSet\<newline>'',
        ''  filepath: data/01_raw/winequality-white.csv\<newline>'',
        ''\<newline>'',
        ''model_red:\<newline>'',
        ''  type: pickle.PickleDataSet\<newline>'',
        ''  filepath: data/06_models/model_red.pickle\<newline>'',
        ''\<newline>'',
        ''model_white:\<newline>'',
        ''  type: pickle.PickleDataSet\<newline>'',
        ''  filepath: data/06_models/model_white.pickle\<newline>'',
        ''\<newline>'',
        ''evaluation_metrics_red:\<newline>'',
        ''  type: yaml.YAMLDataSet\<newline>'',
        ''  filepath: data/08_reporting/scores_red.yaml\<newline>'',
        ''    \<newline>'',
        ''evaluation_metrics_white:\<newline>'',
        ''  type: yaml.YAMLDataSet\<newline>'',
        ''  filepath: data/08_reporting/scores_white.yaml'']\<rparr>\<close>

definition kedro_part_002_c40 :: cell where
  \<open>kedro_part_002_c40 =
    \<lparr>cell_type = Markdown, source = [
        ''Create dvc pipelines for red and white wine.'']\<rparr>\<close>

definition kedro_part_002_c41 :: cell where
  \<open>kedro_part_002_c41 =
    \<lparr>cell_type = Code, source = [
        ''%%bash\<newline>'',
        (''dvc run -n kedro_red '' @ [CHR 0x5C] @ ''\<newline>''),
        (''        -p conf/base/parameters.yml:test_size,random_state,alpha,l1_ratio '' @ [CHR 0x5C] @ ''\<newline>''),
        (''        -d data/01_raw/winequality-red.csv '' @ [CHR 0x5C] @ ''\<newline>''),
        (''        -d src/workflow_tutorial/pipelines '' @ [CHR 0x5C] @ ''\<newline>''),
        (''        -m data/08_reporting/scores_red.yaml '' @ [CHR 0x5C] @ ''\<newline>''),
        (''        -o data/06_models/model_red.pickle '' @ [CHR 0x5C] @ ''\<newline>''),
        (''        'kedro run --pipeline=red'' @ [CHR 0x27])]\<rparr>\<close>

definition kedro_part_002_c42 :: cell where
  \<open>kedro_part_002_c42 =
    \<lparr>cell_type = Code, source = [
        ''%%bash\<newline>'',
        (''dvc run -n kedro_white '' @ [CHR 0x5C] @ ''\<newline>''),
        (''        -p conf/base/parameters.yml:test_size,random_state,alpha,l1_ratio '' @ [CHR 0x5C] @ ''\<newline>''),
        (''        -d data/01_raw/winequality-white.csv '' @ [CHR 0x5C] @ ''\<newline>''),
        (''        -d src/workflow_tutorial/pipelines '' @ [CHR 0x5C] @ ''\<newline>''),
        (''        -m data/08_reporting/scores_white.yaml '' @ [CHR 0x5C] @ ''\<newline>''),
        (''        -o data/06_models/model_white.pickle '' @ [CHR 0x5C] @ ''\<newline>''),
        (''        'kedro run --pipeline=white'' @ [CHR 0x27])]\<rparr>\<close>

definition kedro_part_002_c43 :: cell where
  \<open>kedro_part_002_c43 =
    \<lparr>cell_type = Markdown, source = [
        ''Commit your changes and update dvc remote storage.'']\<rparr>\<close>

definition kedro_part_002_c44 :: cell where
  \<open>kedro_part_002_c44 =
    \<lparr>cell_type = Code, source = [
        ''!git add .\<newline>'',
        ''!git commit -m "add dvc pipelines"'']\<rparr>\<close>

definition kedro_part_002_c45 :: cell where
  \<open>kedro_part_002_c45 =
    \<lparr>cell_type = Code, source = [
        ''!dvc status -c'']\<rparr>\<close>

definition kedro_part_002_c46 :: cell where
  \<open>kedro_part_002_c46 =
    \<lparr>cell_type = Code, source = [
        ''!dvc push'']\<rparr>\<close>

definition kedro_part_002_c47 :: cell where
  \<open>kedro_part_002_c47 =
    \<lparr>cell_type = Markdown, source = [
        ''Everything should now be up to date.                                                       '']\<rparr>\<close>

definition kedro_part_002_c48 :: cell where
  \<open>kedro_part_002_c48 =
    \<lparr>cell_type = Code, source = [
        ''!git status\<newline>'',
        ''!dvc status -c'']\<rparr>\<close>

definition kedro_part_002_c49 :: cell where
  \<open>kedro_part_002_c49 =
    \<lparr>cell_type = Code, source = []\<rparr>\<close>

definition kedro_part_002 :: "cell list" where
  \<open>kedro_part_002 = [kedro_part_002_c00, kedro_part_002_c01, kedro_part_002_c02,
     kedro_part_002_c03, kedro_part_002_c04, kedro_part_002_c05, kedro_part_002_c06,
     kedro_part_002_c07, kedro_part_002_c08, kedro_part_002_c09, kedro_part_002_c10,
     kedro_part_002_c11, kedro_part_002_c12, kedro_part_002_c13, kedro_part_002_c14,
     kedro_part_002_c15, kedro_part_002_c16, kedro_part_002_c17, kedro_part_002_c18,
     kedro_part_002_c19, kedro_part_002_c20, kedro_part_002_c21, kedro_part_002_c22,
     kedro_part_002_c23, kedro_part_002_c24, kedro_part_002_c25, kedro_part_002_c26,
     kedro_part_002_c27, kedro_part_002_c28, kedro_part_002_c29, kedro_part_002_c30,
     kedro_part_002_c31, kedro_part_002_c32, kedro_part_002_c33, kedro_part_002_c34,
     kedro_part_002_c35, kedro_part_002_c36, kedro_part_002_c37, kedro_part_002_c38,
     kedro_part_002_c39, kedro_part_002_c40, kedro_part_002_c41, kedro_part_002_c42,
     kedro_part_002_c43, kedro_part_002_c44, kedro_part_002_c45, kedro_part_002_c46,
     kedro_part_002_c47, kedro_part_002_c48, kedro_part_002_c49]\<close>


definition all_notebooks :: "notebook list" where
  "all_notebooks =
     [airflow_introduction, dvc_introduction, fastapi_introduction,
      airflow_part_001, fastapi_part_002, kedro_part_002]"

definition all_cells :: "cell list" where
  "all_cells = concat all_notebooks"

subsection \<open>The DVC stages\<close>

text \<open>
  A stage is declared by a shell command
  \<open>dvc run -n NAME -d DEP ... -o OUT ... -m METRICS ... -p PARAMS ... COMMAND\<close>.
  \<open>shell_split\<close> cuts a shell script into words as the shell does for the scripts of
  the notebooks: blanks and line feeds separate words, a backslash before a line feed
  joins two lines, a backslash before another character keeps that character, and
  single quotes keep everything up to the closing quote in one word.
\<close>

fun shell_split :: "bool \<Rightarrow> string \<Rightarrow> string \<Rightarrow> string list" where
  "shell_split quoted w [] = (if w = [] then [] else [rev w])"
| "shell_split quoted w [c] =
     (if c = CHR 0x27 \<or> (\<not> quoted \<and> (c = CHR '' '' \<or> c = CHR ''\<newline>''))
      then (if w = [] then [] else [rev w])
      else [rev (c # w)])"
| "shell_split quoted w (c # d # cs) =
     (if quoted then
        (if c = CHR 0x27 then shell_split False w (d # cs)
         else shell_split True (c # w) (d # cs))
      else if c = CHR 0x27 then shell_split True w (d # cs)
      else if c = CHR 0x5C then
        (if d = CHR ''\<newline>'' then shell_split False w cs
         else shell_split False (d # w) cs)
      else if c = CHR '' '' \<or> c = CHR ''\<newline>'' then
        (if w = [] then shell_split False [] (d # cs)
         else rev w # shell_split False [] (d # cs))
      else shell_split False (c # w) (d # cs))"

record dvc_stage =
  stage_name :: string
  deps :: "string list"
  outs :: "string list"
  metrics :: "string list"
  params :: "string list"
  command :: "string list"

definition no_stage :: dvc_stage where
  "no_stage =
     \<lparr>stage_name = [], deps = [], outs = [], metrics = [], params = [], command = []\<rparr>"

fun dvc_run_options :: "dvc_stage \<Rightarrow> string list \<Rightarrow> dvc_stage" where
  "dvc_run_options st (opt # v # ws) =
     (if opt = ''-n'' then dvc_run_options (st\<lparr>stage_name := v\<rparr>) ws
      else if opt = ''-d'' then dvc_run_options (st\<lparr>deps := deps st @ [v]\<rparr>) ws
      else if opt = ''-o'' then dvc_run_options (st\<lparr>outs := outs st @ [v]\<rparr>) ws
      else if opt = ''-m'' then dvc_run_options (st\<lparr>metrics := metrics st @ [v]\<rparr>) ws
      else if opt = ''-p'' then dvc_run_options (st\<lparr>params := params st @ [v]\<rparr>) ws
      else st\<lparr>command := opt # v # ws\<rparr>)"
| "dvc_run_options st ws = st\<lparr>command := ws\<rparr>"

definition dvc_run :: "string list \<Rightarrow> dvc_stage option" where
  "dvc_run ws =
     (case ws of
        a # b # opts \<Rightarrow>
          if a = ''dvc'' \<and> b = ''run'' then Some (dvc_run_options no_stage opts) else None
      | _ \<Rightarrow> None)"

text \<open>
  The stages a notebook declares: one for every \<open>%%bash\<close>/\<open>%%sh\<close> code cell whose script
  starts with \<open>dvc run\<close>, in the order of the cells.
\<close>

definition is_dvc_run_cell :: "cell \<Rightarrow> bool" where
  "is_dvc_run_cell c = (cell_type c = Code \<and> is_shell_magic c \<and> invokes c ''dvc run'')"

definition stage_of_cell :: "cell \<Rightarrow> dvc_stage option" where
  "stage_of_cell c = dvc_run (shell_split False [] (concat (shell_lines c)))"

definition dvc_stages :: "notebook \<Rightarrow> dvc_stage list" where
  "dvc_stages nb = List.map_filter stage_of_cell (filter is_dvc_run_cell nb)"

text \<open>
  DVC draws an edge from a stage to every stage that depends on one of its outputs
  (the \<open>-o\<close> files and the \<open>-m\<close> metrics files).
\<close>

definition stage_feeds :: "dvc_stage \<Rightarrow> dvc_stage \<Rightarrow> bool" where
  "stage_feeds a b = list_ex (\<lambda>f. f \<in> set (deps b)) (outs a @ metrics a)"

definition stage_edges :: "dvc_stage list \<Rightarrow> (string \<times> string) list" where
  "stage_edges ss = [(stage_name a, stage_name b). a \<leftarrow> ss, b \<leftarrow> ss, stage_feeds a b]"

subsection \<open>The Kedro pipelines\<close>

text \<open>
  \<open>pipeline.py\<close>, as the \<open>%%writefile\<close> cells of the Kedro exercise write it. Kedro's
  \<open>node(func, inputs, outputs, name)\<close> is a record of its four arguments (the function
  by its name), \<open>inputs\<close> and \<open>outputs\<close> being one data set name or a list of them;
  \<open>Pipeline(nodes)\<close> is the list of its nodes and \<open>+\<close> on pipelines joins the lists.
\<close>

datatype datasets = One string | Many "string list"

fun dataset_names :: "datasets \<Rightarrow> string list" where
  "dataset_names (One d) = [d]"
| "dataset_names (Many ds) = ds"

record kedro_node =
  func :: string
  inputs :: datasets
  outputs :: datasets
  name :: string

type_synonym pipeline = "kedro_node list"

definition node :: "string \<Rightarrow> datasets \<Rightarrow> datasets \<Rightarrow> string \<Rightarrow> kedro_node" where
  "node f i out n = \<lparr>func = f, inputs = i, outputs = out, name = n\<rparr>"

definition Pipeline :: "kedro_node list \<Rightarrow> pipeline" where
  "Pipeline nodes = nodes"

definition pipeline_add :: "pipeline \<Rightarrow> pipeline \<Rightarrow> pipeline" where
  "pipeline_add p q = p @ q"

text \<open>The first version of \<open>pipeline.py\<close> (cell 7 of the exercise).\<close>

definition create_pipeline :: pipeline where
  "create_pipeline =
     Pipeline
       [node ''split_data''
          (Many [''wines-red'', ''parameters''])
          (Many [''x_train'', ''x_test'', ''y_train'', ''y_test''])
          ''splitting_data'',
        node ''train_model''
          (Many [''x_train'', ''y_train'', ''parameters''])
          (One ''model'')
          ''training_model'',
        node ''evaluate_model''
          (Many [''model'', ''x_test'', ''y_test''])
          (One ''evaluation_metric'')
          ''evaluating_model'']"

text \<open>The second version of \<open>pipeline.py\<close> (cell 23 of the exercise).\<close>

definition create_red_wine_pipeline :: pipeline where
  "create_red_wine_pipeline =
     Pipeline
       [node ''split_data''
          (Many [''wines-red'', ''parameters''])
          (Many [''x_train_red'', ''x_test_red'', ''y_train_red'', ''y_test_red''])
          ''splitting_red_wine_data'',
        node ''train_model''
          (Many [''x_train_red'', ''y_train_red'', ''parameters''])
          (One ''model_red'')
          ''training_red_wine_model'',
        node ''evaluate_model''
          (Many [''model_red'', ''x_test_red'', ''y_test_red''])
          (One ''evaluation_metrics_red'')
          ''evaluating_red_wine_model'']"

definition create_white_wine_pipeline :: pipeline where
  "create_white_wine_pipeline =
     Pipeline
       [node ''download_data''
          (Many [''params:white_wine_data_url''])
          (One ''wines-white'')
          ''download_white_wine_data'',
        node ''split_data''
          (Many [''wines-white'', ''parameters''])
          (Many [''x_train_white'', ''x_test_white'', ''y_train_white'', ''y_test_white''])
          ''splitting_white_wine_data'',
        node ''train_model''
          (Many [''x_train_white'', ''y_train_white'', ''parameters''])
          (One ''model_white'')
          ''training_white_wine_model'',
        node ''evaluate_model''
          (Many [''model_white'', ''x_test_white'', ''y_test_white''])
          (One ''evaluation_metrics_white'')
          ''evaluating_white_wine_model'']"

text \<open>\<open>ProjectHooks.register_pipelines\<close> of \<open>hooks.py\<close> (cell 25 of the exercise).\<close>

definition register_pipelines :: "(string \<times> pipeline) list" where
  "register_pipelines =
     (let red_wine_pipeline = create_red_wine_pipeline;
          white_wine_pipeline = create_white_wine_pipeline
      in [(''red'', red_wine_pipeline),
          (''white'', white_wine_pipeline),
          (''__default__'', pipeline_add red_wine_pipeline white_wine_pipeline)])"

text \<open>
  Kedro runs a node after every node that produces one of its inputs: an edge leads
  from a node to each node that reads one of its outputs.
\<close>

definition node_feeds :: "kedro_node \<Rightarrow> kedro_node \<Rightarrow> bool" where
  "node_feeds a b =
     list_ex (\<lambda>d. d \<in> set (dataset_names (inputs b))) (dataset_names (outputs a))"

definition node_edges :: "pipeline \<Rightarrow> (string \<times> string) list" where
  "node_edges p = [(name a, name b). a \<leftarrow> p, b \<leftarrow> p, node_feeds a b]"

subsection \<open>The Airflow orderings\<close>

text \<open>
  The Airflow notebooks show, in listings of markdown cells, tasks and the statement
  \<open>fs_task >> python_task\<close> (and \<open>task1 >> task2\<close> in the XCom example). A task is
  known by its \<open>task_id\<close>; \<open>a >> b\<close> adds to the DAG the edge that runs \<open>a\<close> before \<open>b\<close>.
\<close>

record task =
  task_id :: string
  operator :: string

definition python_task :: task where
  "python_task = \<lparr>task_id = ''print'', operator = ''PythonOperator''\<rparr>"

definition fs_task :: task where
  "fs_task = \<lparr>task_id = ''lookup_file'', operator = ''FileSensor''\<rparr>"

definition task1 :: task where
  "task1 = \<lparr>task_id = ''task1'', operator = ''PythonOperator''\<rparr>"

definition task2 :: task where
  "task2 = \<lparr>task_id = ''task2'', operator = ''PythonOperator''\<rparr>"

definition rshift :: "task \<Rightarrow> task \<Rightarrow> (string \<times> string) list \<Rightarrow> (string \<times> string) list" where
  "rshift a b dag = dag @ [(task_id a, task_id b)]"

definition connecting_operators :: "(string \<times> string) list" where
  "connecting_operators = rshift fs_task python_task []"

definition xcom_example :: "(string \<times> string) list" where
  "xcom_example = rshift task1 task2 []"

text \<open>\<open>position xs x\<close>: the index of the first \<open>x\<close> in \<open>xs\<close> (its length when there is none).\<close>

fun position :: "'a list \<Rightarrow> 'a \<Rightarrow> nat" where
  "position [] x = 0"
| "position (y # ys) x = (if x = y then 0 else Suc (position ys x))"

text \<open>
  \<open>runs_forward order es\<close>: every edge of \<open>es\<close> leads from a name to a name that stands
  later in \<open>order\<close>.
\<close>

definition runs_forward :: "'a list \<Rightarrow> ('a \<times> 'a) list \<Rightarrow> bool" where
  "runs_forward order es = list_all (\<lambda>e. position order (fst e) < position order (snd e)) es"

subsection \<open>The function evaluate_model\<close>

text \<open>
  Cell 4 of the Kedro exercise defines \<open>evaluate_model(pipe, x_test, y_test)\<close>. Its body
  calls into sklearn, numpy, mlflow and logging; the model takes those libraries as a
  record of functions, each of which returns a value or raises (\<open>Inl\<close>). What the
  calls to mlflow and logging write is not modelled, only whether they return.
  Reading a global name that the module does not bind raises \<open>NameError\<close>.
\<close>

datatype 'e exception = NameError string | Raised 'e

datatype 'f py_value = Float 'f | Dict "(string \<times> 'f py_value) list"

record ('pipe, 'arr, 'num, 'flt, 'logger, 'e) libraries =
  predict :: "'pipe \<Rightarrow> 'arr \<Rightarrow> 'e + 'arr"
  mean_squared_error :: "'arr \<Rightarrow> 'arr \<Rightarrow> 'e + 'num"
  mean_absolute_error :: "'arr \<Rightarrow> 'arr \<Rightarrow> 'e + 'num"
  r2_score :: "'arr \<Rightarrow> 'arr \<Rightarrow> 'e + 'num"
  np_sqrt :: "'num \<Rightarrow> 'e + 'num"
  mlflow_log_metric :: "string \<Rightarrow> 'num \<Rightarrow> 'e + unit"
  logging_getLogger :: "string \<Rightarrow> 'e + 'logger"
  logger_info :: "'logger \<Rightarrow> string \<Rightarrow> 'num \<Rightarrow> 'e + unit"
  py_float :: "'num \<Rightarrow> 'flt"

text \<open>
  \<open>then_do m f\<close> runs \<open>f\<close> on the value of \<open>m\<close>, unless \<open>m\<close> raised; \<open>call r\<close> is a call
  into a library, whose exception propagates.
\<close>

definition then_do :: "'x + 'a \<Rightarrow> ('a \<Rightarrow> 'x + 'b) \<Rightarrow> 'x + 'b" where
  "then_do m f = (case m of Inl e \<Rightarrow> Inl e | Inr a \<Rightarrow> f a)"

definition call :: "'e + 'a \<Rightarrow> 'e exception + 'a" where
  "call r = (case r of Inl e \<Rightarrow> Inl (Raised e) | Inr a \<Rightarrow> Inr a)"

text \<open>
  The module a function is defined in: its name (the value of \<open>__name__\<close>) and the
  global names it binds. Every module can read its own \<open>__name__\<close> and the builtin
  \<open>float\<close>; any other global name must be bound in the module.
\<close>

record module_env =
  modname :: string
  globals :: "string list"

definition always_bound :: "string list" where
  "always_bound = [''__name__'', ''float'']"

definition load_global :: "string list \<Rightarrow> string \<Rightarrow> 'e exception + unit" where
  "load_global g n =
     (if n \<in> set g \<or> n \<in> set always_bound then Inr () else Inl (NameError n))"

text \<open>
  The body, statement by statement, in Python's order of evaluation: in a call
  \<open>m.f(args)\<close> the name \<open>m\<close> is read first, then the arguments are evaluated, then the
  call is made. The parameters \<open>pipe\<close>, \<open>x_test\<close>, \<open>y_test\<close> and the local variables
  are always bound.
\<close>

definition evaluate_model ::
  "module_env \<Rightarrow> ('pipe, 'arr, 'num, 'flt, 'logger, 'e) libraries \<Rightarrow>
   'pipe \<Rightarrow> 'arr \<Rightarrow> 'arr \<Rightarrow> 'e exception + 'flt py_value" where
  "evaluate_model env lib pipe x_test y_test =
     then_do (call (predict lib pipe x_test)) (\<lambda>y_pred.
     then_do (load_global (globals env) ''np'') (\<lambda>_.
     then_do (load_global (globals env) ''mean_squared_error'') (\<lambda>_.
     then_do (call (mean_squared_error lib y_test y_pred)) (\<lambda>mse.
     then_do (call (np_sqrt lib mse)) (\<lambda>rmse.
     then_do (load_global (globals env) ''mean_absolute_error'') (\<lambda>_.
     then_do (call (mean_absolute_error lib y_test y_pred)) (\<lambda>mae.
     then_do (load_global (globals env) ''r2_score'') (\<lambda>_.
     then_do (call (r2_score lib y_test y_pred)) (\<lambda>r2.
     then_do (load_global (globals env) ''mlflow'') (\<lambda>_.
     then_do (call (mlflow_log_metric lib ''rmse'' rmse)) (\<lambda>_.
     then_do (load_global (globals env) ''mlflow'') (\<lambda>_.
     then_do (call (mlflow_log_metric lib ''mae'' mae)) (\<lambda>_.
     then_do (load_global (globals env) ''mlflow'') (\<lambda>_.
     then_do (call (mlflow_log_metric lib ''r2'' r2)) (\<lambda>_.
     then_do (load_global (globals env) ''logging'') (\<lambda>_.
     then_do (load_global (globals env) ''__name__'') (\<lambda>_.
     then_do (call (logging_getLogger lib (modname env))) (\<lambda>logger.
     then_do (call (logger_info lib logger ''Model has a coefficient R^2 of %.3f.'' r2)) (\<lambda>_.
     then_do (load_global (globals env) ''float'') (\<lambda>_.
     Inr (Dict [(''train'',
                 Dict [(''rmse'', Float (py_float lib rmse)),
                       (''mae'', Float (py_float lib mae)),
                       (''r2'', Float (py_float lib r2))])])))))))))))))))))))))"

text \<open>
  The names the kernel has bound once the cells of Python of a notebook have run: the
  names their statements at the left margin bind.
\<close>

definition kernel_names :: "notebook \<Rightarrow> string list" where
  "kernel_names nb = map fst (concat (map module_bindings (cells_of_kind Python_cell nb)))"

text \<open>
  The kernel of the Kedro exercise, in which cell 4 defines the function; and a module
  like \<open>nodes.py\<close> that binds, besides those names, \<open>mlflow\<close> and \<open>logging\<close>.
\<close>

definition exercise_kernel :: module_env where
  "exercise_kernel = \<lparr>modname = ''__main__'', globals = kernel_names kedro_part_002\<rparr>"

definition nodes_module :: module_env where
  "nodes_module =
     \<lparr>modname = ''workflow_tutorial.pipelines.nodes'',
      globals = ''mlflow'' # ''logging'' # kernel_names kedro_part_002\<rparr>"

text \<open>
  Stand-ins for the libraries, to run the function on: one in which every call
  returns, one in which the model has no \<open>predict\<close> (as for \<open>pipe = None\<close>), one in which
  the tracking server of mlflow cannot be reached.
\<close>

definition working_libraries :: "(unit, int list, int, int, string, string) libraries" where
  "working_libraries =
     \<lparr>predict = (\<lambda>pipe x. Inr x),
      mean_squared_error = (\<lambda>y_true y_pred. Inr 4),
      mean_absolute_error = (\<lambda>y_true y_pred. Inr 1),
      r2_score = (\<lambda>y_true y_pred. Inr 0),
      np_sqrt = (\<lambda>v. Inr 2),
      mlflow_log_metric = (\<lambda>key v. Inr ()),
      logging_getLogger = (\<lambda>n. Inr n),
      logger_info = (\<lambda>logger msg v. Inr ()),
      py_float = (\<lambda>v. v)\<rparr>"

definition no_predict_libraries :: "(unit, int list, int, int, string, string) libraries" where
  "no_predict_libraries = working_libraries\<lparr>predict := (\<lambda>pipe x. Inl ''AttributeError'')\<rparr>"

definition no_tracking_libraries :: "(unit, int list, int, int, string, string) libraries" where
  "no_tracking_libraries =
     working_libraries\<lparr>mlflow_log_metric := (\<lambda>key v. Inl ''MlflowException'')\<rparr>"

section \<open>Properties\<close>

subsection \<open>The docker-compose file\<close>

lemma split_on_port_8888: "split_on CHR '':'' ''8888:8888'' = [''8888'', ''8888'']"
  by simp

lemma host_ports_jupyter:
  "map host_port (ports jupyter) = [Some 8888, Some 4141, Some 5000, Some 7777]"
  by (simp add: jupyter_def host_port_def parse_nat_def digit_val_def decimal_digits_def)

lemma host_ports_airflow: "map host_port (ports airflow) = [Some 8080]"
  by (simp add: airflow_def host_port_def parse_nat_def digit_val_def decimal_digits_def)

lemma mounts_jupyter:
  "mounts jupyter =
     [(Host_path ''./notebooks'', [''workshop'', ''notebooks'']),
      (Named_volume ''workspace'', [''workshop'', ''workspace''])]"
  by (simp add: jupyter_def mounts_def List.map_filter_def split_path_def is_host_path_def
      startswith_def)

lemma mounts_airflow:
  "mounts airflow =
     [(Host_path ''./notebooks/airflow/dags'', [''usr'', ''local'', ''airflow'', ''dags'']),
      (Host_path ''./notebooks/airflow/exercise-dataset-airflow'',
       [''exercise-dataset-airflow'']),
      (Named_volume ''workspace'', [''workshop'', ''workspace''])]"
  by (simp add: airflow_def mounts_def List.map_filter_def split_path_def is_host_path_def
      startswith_def)

text \<open>
  C2. The compose file defines exactly the two services \<open>jupyter\<close> and \<open>airflow\<close>, in
  this order and no other; each names one image; \<open>jupyter\<close> publishes the host ports
  8888, 4141, 5000 and 7777 and \<open>airflow\<close> the host port 8080; and each service mounts
  at least one volume (every volume entry of either service is a well-formed mount).
\<close>

theorem compose_defines_two_services:
  "service_names docker_compose = [''jupyter'', ''airflow'']
   \<and> service_of docker_compose ''jupyter'' = Some jupyter
   \<and> service_of docker_compose ''airflow'' = Some airflow
   \<and> image jupyter = ''radtkem/from-jupyter-to-production-baseimage:latest''
   \<and> image airflow = ''radtkem/from-jupyter-to-production-airflow-image:latest''
   \<and> map host_port (ports jupyter) = [Some 8888, Some 4141, Some 5000, Some 7777]
   \<and> map host_port (ports airflow) = [Some 8080]
   \<and> 0 < length (volumes jupyter) \<and> length (mounts jupyter) = length (volumes jupyter)
   \<and> 0 < length (volumes airflow) \<and> length (mounts airflow) = length (volumes airflow)"
proof -
  have names: "service_names docker_compose = [''jupyter'', ''airflow'']"
    by (simp add: service_names_def docker_compose_def)
  have j: "service_of docker_compose ''jupyter'' = Some jupyter"
    by (simp add: service_of_def docker_compose_def)
  have a: "service_of docker_compose ''airflow'' = Some airflow"
    by (simp add: service_of_def docker_compose_def)
  have ij: "image jupyter = ''radtkem/from-jupyter-to-production-baseimage:latest''"
    by (simp add: jupyter_def)
  have ia: "image airflow = ''radtkem/from-jupyter-to-production-airflow-image:latest''"
    by (simp add: airflow_def)
  have vj: "0 < length (volumes jupyter)"
    by (simp add: jupyter_def)
  have mj: "length (mounts jupyter) = length (volumes jupyter)"
    by (simp add: mounts_jupyter) (simp add: jupyter_def)
  have va: "0 < length (volumes airflow)"
    by (simp add: airflow_def)
  have ma: "length (mounts airflow) = length (volumes airflow)"
    by (simp add: mounts_airflow) (simp add: airflow_def)
  show ?thesis
    by (intro conjI)
      (rule names j a ij ia host_ports_jupyter host_ports_airflow vj mj va ma)+
qed

subsection \<open>The notebooks, evaluated\<close>

lemmas cell_kind_defs =
  first_line_def is_shell_magic_def is_writefile_magic_def is_bang_line_def
  is_comment_line_def is_blank_line_def startswith_def

lemmas airflow_introduction_cells =
  airflow_introduction_c00_def airflow_introduction_c01_def airflow_introduction_c02_def
  airflow_introduction_c03_def airflow_introduction_c04_def airflow_introduction_c05_def
  airflow_introduction_c06_def airflow_introduction_c07_def airflow_introduction_c08_def
  airflow_introduction_c09_def airflow_introduction_c10_def airflow_introduction_c11_def
  airflow_introduction_c12_def

lemmas dvc_introduction_cells =
  dvc_introduction_c00_def dvc_introduction_c01_def dvc_introduction_c02_def
  dvc_introduction_c03_def dvc_introduction_c04_def dvc_introduction_c05_def
  dvc_introduction_c06_def dvc_introduction_c07_def dvc_introduction_c08_def
  dvc_introduction_c09_def dvc_introduction_c10_def dvc_introduction_c11_def
  dvc_introduction_c12_def dvc_introduction_c13_def dvc_introduction_c14_def
  dvc_introduction_c15_def dvc_introduction_c16_def dvc_introduction_c17_def
  dvc_introduction_c18_def dvc_introduction_c19_def dvc_introduction_c20_def
  dvc_introduction_c21_def dvc_introduction_c22_def dvc_introduction_c23_def
  dvc_introduction_c24_def dvc_introduction_c25_def dvc_introduction_c26_def
  dvc_introduction_c27_def dvc_introduction_c28_def dvc_introduction_c29_def
  dvc_introduction_c30_def dvc_introduction_c31_def dvc_introduction_c32_def
  dvc_introduction_c33_def dvc_introduction_c34_def dvc_introduction_c35_def
  dvc_introduction_c36_def dvc_introduction_c37_def dvc_introduction_c38_def
  dvc_introduction_c39_def dvc_introduction_c40_def dvc_introduction_c41_def
  dvc_introduction_c42_def dvc_introduction_c43_def dvc_introduction_c44_def
  dvc_introduction_c45_def dvc_introduction_c46_def dvc_introduction_c47_def
  dvc_introduction_c48_def dvc_introduction_c49_def dvc_introduction_c50_def

lemmas fastapi_introduction_cells =
  fastapi_introduction_c00_def fastapi_introduction_c01_def fastapi_introduction_c02_def
  fastapi_introduction_c03_def fastapi_introduction_c04_def fastapi_introduction_c05_def
  fastapi_introduction_c06_def fastapi_introduction_c07_def fastapi_introduction_c08_def

lemmas airflow_part_001_cells =
  airflow_part_001_c00_def airflow_part_001_c01_def airflow_part_001_c02_def
  airflow_part_001_c03_def airflow_part_001_c04_def airflow_part_001_c05_def
  airflow_part_001_c06_def airflow_part_001_c07_def

lemmas fastapi_part_002_cells =
  fastapi_part_002_c00_def fastapi_part_002_c01_def fastapi_part_002_c02_def
  fastapi_part_002_c03_def fastapi_part_002_c04_def fastapi_part_002_c05_def
  fastapi_part_002_c06_def fastapi_part_002_c07_def fastapi_part_002_c08_def
  fastapi_part_002_c09_def

lemmas kedro_part_002_cells =
  kedro_part_002_c00_def kedro_part_002_c01_def kedro_part_002_c02_def kedro_part_002_c03_def
  kedro_part_002_c04_def kedro_part_002_c05_def kedro_part_002_c06_def kedro_part_002_c07_def
  kedro_part_002_c08_def kedro_part_002_c09_def kedro_part_002_c10_def kedro_part_002_c11_def
  kedro_part_002_c12_def kedro_part_002_c13_def kedro_part_002_c14_def kedro_part_002_c15_def
  kedro_part_002_c16_def kedro_part_002_c17_def kedro_part_002_c18_def kedro_part_002_c19_def
  kedro_part_002_c20_def kedro_part_002_c21_def kedro_part_002_c22_def kedro_part_002_c23_def
  kedro_part_002_c24_def kedro_part_002_c25_def kedro_part_002_c26_def kedro_part_002_c27_def
  kedro_part_002_c28_def kedro_part_002_c29_def kedro_part_002_c30_def kedro_part_002_c31_def
  kedro_part_002_c32_def kedro_part_002_c33_def kedro_part_002_c34_def kedro_part_002_c35_def
  kedro_part_002_c36_def kedro_part_002_c37_def kedro_part_002_c38_def kedro_part_002_c39_def
  kedro_part_002_c40_def kedro_part_002_c41_def kedro_part_002_c42_def kedro_part_002_c43_def
  kedro_part_002_c44_def kedro_part_002_c45_def kedro_part_002_c46_def kedro_part_002_c47_def
  kedro_part_002_c48_def kedro_part_002_c49_def

lemma classify_airflow_introduction:
  "map classify airflow_introduction =
     [Markdown_cell, Markdown_cell, Markdown_cell, Markdown_cell, Markdown_cell, Markdown_cell,
      Markdown_cell, Markdown_cell, Markdown_cell, Shell_cell, Shell_cell, Shell_cell,
      Empty_cell]"
  unfolding airflow_introduction_def
  by (simp add: airflow_introduction_cells classify_def cell_kind_defs)

lemma classify_dvc_introduction:
  "map classify dvc_introduction =
     [Markdown_cell, Markdown_cell, Shell_cell, Python_cell, Markdown_cell, Markdown_cell,
      Shell_cell, Markdown_cell, Shell_cell, Markdown_cell, Shell_cell, Markdown_cell,
      Shell_cell, Markdown_cell, Shell_cell, Shell_cell, Shell_cell, Shell_cell, Markdown_cell,
      Shell_cell, Shell_cell, Markdown_cell, Shell_cell, Shell_cell, Shell_cell, Shell_cell,
      Shell_cell, Markdown_cell, Shell_cell, Shell_cell, Shell_cell, Shell_cell, Markdown_cell,
      Shell_cell, Shell_cell, Markdown_cell, Shell_cell, Shell_cell, Markdown_cell, Shell_cell,
      Markdown_cell, Markdown_cell, Shell_cell, Shell_cell, Markdown_cell, Shell_cell,
      Shell_cell, Markdown_cell, Python_cell, Shell_cell, Empty_cell]"
  unfolding dvc_introduction_def
  by (simp add: dvc_introduction_cells classify_def cell_kind_defs)

lemma classify_fastapi_introduction:
  "map classify fastapi_introduction =
     [Markdown_cell, Markdown_cell, Markdown_cell, Markdown_cell, Shell_cell, Markdown_cell,
      Shell_cell, Markdown_cell, Shell_cell]"
  unfolding fastapi_introduction_def
  by (simp add: fastapi_introduction_cells classify_def cell_kind_defs)

lemma classify_airflow_part_001:
  "map classify airflow_part_001 =
     [Markdown_cell, Markdown_cell, Markdown_cell, Markdown_cell, Markdown_cell, Markdown_cell,
      Markdown_cell, Markdown_cell]"
  unfolding airflow_part_001_def
  by (simp add: airflow_part_001_cells classify_def cell_kind_defs)

lemma classify_fastapi_part_002:
  "map classify fastapi_part_002 =
     [Markdown_cell, Markdown_cell, Markdown_cell, Markdown_cell, Shell_cell, Markdown_cell,
      Shell_cell, Markdown_cell, Shell_cell, Empty_cell]"
  unfolding fastapi_part_002_def
  by (simp add: fastapi_part_002_cells classify_def cell_kind_defs)

lemma classify_kedro_part_002:
  "map classify kedro_part_002 =
     [Markdown_cell, Python_cell, Markdown_cell, Markdown_cell, Python_cell, Markdown_cell,
      Markdown_cell, Writefile_cell, Markdown_cell, Shell_cell, Shell_cell, Markdown_cell,
      Shell_cell, Shell_cell, Markdown_cell, Markdown_cell, Markdown_cell, Writefile_cell,
      Markdown_cell, Python_cell, Markdown_cell, Writefile_cell, Markdown_cell, Writefile_cell,
      Markdown_cell, Writefile_cell, Markdown_cell, Comment_cell, Shell_cell, Markdown_cell,
      Shell_cell, Markdown_cell, Shell_cell, Markdown_cell, Shell_cell, Markdown_cell,
      Shell_cell, Shell_cell, Markdown_cell, Writefile_cell, Markdown_cell, Shell_cell,
      Shell_cell, Markdown_cell, Shell_cell, Shell_cell, Shell_cell, Markdown_cell, Shell_cell,
      Empty_cell]"
  unfolding kedro_part_002_def
  by (simp add: kedro_part_002_cells classify_def cell_kind_defs)







lemma defined_names_airflow_introduction:
  \<open>map defined_names airflow_introduction =
     [[], [], [], [''print_sth''], [], [''foo'', ''bar''], [], [], [], [], [], [], []]\<close>
  unfolding airflow_introduction_def
  by (simp add: airflow_introduction_cells defined_names_def is_definition_line_def startswith_def
      words_def statement_bindings_def)

lemma defined_names_dvc_introduction:
  \<open>map defined_names dvc_introduction =
     [[], [], [], [], [], [], [], [], [], [], [], [], [], [], [], [], [], [], [], [], [], [],
      [], [], [], [], [], [], [], [], [], [], [], [], [], [], [], [], [], [], [], [], [], [],
      [], [], [], [], [], [], []]\<close>
  unfolding dvc_introduction_def
  by (simp add: dvc_introduction_cells defined_names_def is_definition_line_def startswith_def
      words_def statement_bindings_def)

lemma defined_names_fastapi_introduction:
  \<open>map defined_names fastapi_introduction =
     [[], [], [], [], [], [], [], [], []]\<close>
  unfolding fastapi_introduction_def
  by (simp add: fastapi_introduction_cells defined_names_def is_definition_line_def startswith_def
      words_def statement_bindings_def)

lemma defined_names_airflow_part_001:
  \<open>map defined_names airflow_part_001 =
     [[], [], [], [''print_sth''], [], [''foo'', ''bar''], [], []]\<close>
  unfolding airflow_part_001_def
  by (simp add: airflow_part_001_cells defined_names_def is_definition_line_def startswith_def
      words_def statement_bindings_def)

lemma defined_names_fastapi_part_002:
  \<open>map defined_names fastapi_part_002 =
     [[], [], [], [], [], [], [], [], [], []]\<close>
  unfolding fastapi_part_002_def
  by (simp add: fastapi_part_002_cells defined_names_def is_definition_line_def startswith_def
      words_def statement_bindings_def)

lemma defined_names_kedro_part_002:
  \<open>map defined_names kedro_part_002 =
     [[], [], [], [], [''evaluate_model''], [], [], [''create_pipeline''], [], [], [], [], [],
      [], [], [], [], [], [], [''download_data''], [], [], [],
      [''create_red_wine_pipeline'', ''create_white_wine_pipeline''], [],
      [''ProjectHooks'', ''register_pipelines'', ''register_config_loader'', ''register_catalog''],
      [], [], [], [], [], [], [], [], [], [], [], [], [], [], [], [], [], [], [], [], [], [],
      [], []]\<close>
  unfolding kedro_part_002_def
  by (simp add: kedro_part_002_cells defined_names_def is_definition_line_def startswith_def
      words_def statement_bindings_def)

lemma calls_pipeline_or_node_airflow_introduction:
  "map calls_pipeline_or_node airflow_introduction =
     [False, False, False, False, False, False, False, False, False, False, False, False, False]"
  unfolding airflow_introduction_def
  by (simp add: airflow_introduction_cells calls_pipeline_or_node_def mentions_def)

lemma calls_pipeline_or_node_dvc_introduction:
  "map calls_pipeline_or_node dvc_introduction =
     [False, False, False, False, False, False, False, False, False, False, False, False,
      False, False, False, False, False, False, False, False, False, False, False, False,
      False, False, False, False, False, False, False, False, False, False, False, False,
      False, False, False, False, False, False, False, False, False, False, False, False,
      False, False, False]"
  unfolding dvc_introduction_def
  by (simp add: dvc_introduction_cells calls_pipeline_or_node_def mentions_def)

lemma calls_pipeline_or_node_fastapi_introduction:
  "map calls_pipeline_or_node fastapi_introduction =
     [False, False, False, False, False, False, False, False, False]"
  unfolding fastapi_introduction_def
  by (simp add: fastapi_introduction_cells calls_pipeline_or_node_def mentions_def)

lemma calls_pipeline_or_node_airflow_part_001:
  "map calls_pipeline_or_node airflow_part_001 =
     [False, False, False, False, False, False, False, False]"
  unfolding airflow_part_001_def
  by (simp add: airflow_part_001_cells calls_pipeline_or_node_def mentions_def)

lemma calls_pipeline_or_node_fastapi_part_002:
  "map calls_pipeline_or_node fastapi_part_002 =
     [False, False, False, False, False, False, False, False, False, False]"
  unfolding fastapi_part_002_def
  by (simp add: fastapi_part_002_cells calls_pipeline_or_node_def mentions_def)

lemma calls_pipeline_or_node_kedro_part_002:
  "map calls_pipeline_or_node kedro_part_002 =
     [False, False, False, False, False, False, False, True, False, False, False, False, False,
      False, False, False, False, False, False, False, False, False, False, True, False, False,
      False, False, False, False, False, False, False, False, False, False, False, False,
      False, False, False, False, False, False, False, False, False, False, False, False]"
  unfolding kedro_part_002_def
  by (simp add: kedro_part_002_cells calls_pipeline_or_node_def mentions_def)

lemma dvc_run_cells_dvc_introduction:
  "map is_dvc_run_cell dvc_introduction =
     [False, False, False, False, False, False, False, False, False, False, False, False,
      False, False, False, False, False, False, False, False, False, False, True, True, True,
      True, False, False, False, False, False, False, False, False, False, False, False, False,
      False, False, False, False, False, False, False, False, False, False, False, False, False]"
  unfolding dvc_introduction_def
  by (simp add: dvc_introduction_cells is_dvc_run_cell_def invokes_def shell_lines_def cell_kind_defs)

lemma dvc_run_cells_kedro_part_002:
  "map is_dvc_run_cell kedro_part_002 =
     [False, False, False, False, False, False, False, False, False, False, False, False,
      False, False, False, False, False, False, False, False, False, False, False, False,
      False, False, False, False, False, False, False, False, False, False, False, False,
      False, False, False, False, False, True, True, False, False, False, False, False, False,
      False]"
  unfolding kedro_part_002_def
  by (simp add: kedro_part_002_cells is_dvc_run_cell_def invokes_def shell_lines_def cell_kind_defs)

lemma all_cells_list:
  "all_cells =
     [airflow_introduction_c00, airflow_introduction_c01, airflow_introduction_c02,
      airflow_introduction_c03, airflow_introduction_c04, airflow_introduction_c05,
      airflow_introduction_c06, airflow_introduction_c07, airflow_introduction_c08,
      airflow_introduction_c09, airflow_introduction_c10, airflow_introduction_c11,
      airflow_introduction_c12, dvc_introduction_c00, dvc_introduction_c01,
      dvc_introduction_c02, dvc_introduction_c03, dvc_introduction_c04, dvc_introduction_c05,
      dvc_introduction_c06, dvc_introduction_c07, dvc_introduction_c08, dvc_introduction_c09,
      dvc_introduction_c10, dvc_introduction_c11, dvc_introduction_c12, dvc_introduction_c13,
      dvc_introduction_c14, dvc_introduction_c15, dvc_introduction_c16, dvc_introduction_c17,
      dvc_introduction_c18, dvc_introduction_c19, dvc_introduction_c20, dvc_introduction_c21,
      dvc_introduction_c22, dvc_introduction_c23, dvc_introduction_c24, dvc_introduction_c25,
      dvc_introduction_c26, dvc_introduction_c27, dvc_introduction_c28, dvc_introduction_c29,
      dvc_introduction_c30, dvc_introduction_c31, dvc_introduction_c32, dvc_introduction_c33,
      dvc_introduction_c34, dvc_introduction_c35, dvc_introduction_c36, dvc_introduction_c37,
      dvc_introduction_c38, dvc_introduction_c39, dvc_introduction_c40, dvc_introduction_c41,
      dvc_introduction_c42, dvc_introduction_c43, dvc_introduction_c44, dvc_introduction_c45,
      dvc_introduction_c46, dvc_introduction_c47, dvc_introduction_c48, dvc_introduction_c49,
      dvc_introduction_c50, fastapi_introduction_c00, fastapi_introduction_c01,
      fastapi_introduction_c02, fastapi_introduction_c03, fastapi_introduction_c04,
      fastapi_introduction_c05, fastapi_introduction_c06, fastapi_introduction_c07,
      fastapi_introduction_c08, airflow_part_001_c00, airflow_part_001_c01,
      airflow_part_001_c02, airflow_part_001_c03, airflow_part_001_c04, airflow_part_001_c05,
      airflow_part_001_c06, airflow_part_001_c07, fastapi_part_002_c00, fastapi_part_002_c01,
      fastapi_part_002_c02, fastapi_part_002_c03, fastapi_part_002_c04, fastapi_part_002_c05,
      fastapi_part_002_c06, fastapi_part_002_c07, fastapi_part_002_c08, fastapi_part_002_c09,
      kedro_part_002_c00, kedro_part_002_c01, kedro_part_002_c02, kedro_part_002_c03,
      kedro_part_002_c04, kedro_part_002_c05, kedro_part_002_c06, kedro_part_002_c07,
      kedro_part_002_c08, kedro_part_002_c09, kedro_part_002_c10, kedro_part_002_c11,
      kedro_part_002_c12, kedro_part_002_c13, kedro_part_002_c14, kedro_part_002_c15,
      kedro_part_002_c16, kedro_part_002_c17, kedro_part_002_c18, kedro_part_002_c19,
      kedro_part_002_c20, kedro_part_002_c21, kedro_part_002_c22, kedro_part_002_c23,
      kedro_part_002_c24, kedro_part_002_c25, kedro_part_002_c26, kedro_part_002_c27,
      kedro_part_002_c28, kedro_part_002_c29, kedro_part_002_c30, kedro_part_002_c31,
      kedro_part_002_c32, kedro_part_002_c33, kedro_part_002_c34, kedro_part_002_c35,
      kedro_part_002_c36, kedro_part_002_c37, kedro_part_002_c38, kedro_part_002_c39,
      kedro_part_002_c40, kedro_part_002_c41, kedro_part_002_c42, kedro_part_002_c43,
      kedro_part_002_c44, kedro_part_002_c45, kedro_part_002_c46, kedro_part_002_c47,
      kedro_part_002_c48, kedro_part_002_c49]"
  by (simp add: all_cells_def all_notebooks_def airflow_introduction_def dvc_introduction_def fastapi_introduction_def airflow_part_001_def fastapi_part_002_def kedro_part_002_def)

lemma classify_all_cells:
  "map classify all_cells =
     [Markdown_cell, Markdown_cell, Markdown_cell, Markdown_cell, Markdown_cell, Markdown_cell,
      Markdown_cell, Markdown_cell, Markdown_cell, Shell_cell, Shell_cell, Shell_cell,
      Empty_cell, Markdown_cell, Markdown_cell, Shell_cell, Python_cell, Markdown_cell,
      Markdown_cell, Shell_cell, Markdown_cell, Shell_cell, Markdown_cell, Shell_cell,
      Markdown_cell, Shell_cell, Markdown_cell, Shell_cell, Shell_cell, Shell_cell, Shell_cell,
      Markdown_cell, Shell_cell, Shell_cell, Markdown_cell, Shell_cell, Shell_cell, Shell_cell,
      Shell_cell, Shell_cell, Markdown_cell, Shell_cell, Shell_cell, Shell_cell, Shell_cell,
      Markdown_cell, Shell_cell, Shell_cell, Markdown_cell, Shell_cell, Shell_cell,
      Markdown_cell, Shell_cell, Markdown_cell, Markdown_cell, Shell_cell, Shell_cell,
      Markdown_cell, Shell_cell, Shell_cell, Markdown_cell, Python_cell, Shell_cell,
      Empty_cell, Markdown_cell, Markdown_cell, Markdown_cell, Markdown_cell, Shell_cell,
      Markdown_cell, Shell_cell, Markdown_cell, Shell_cell, Markdown_cell, Markdown_cell,
      Markdown_cell, Markdown_cell, Markdown_cell, Markdown_cell, Markdown_cell, Markdown_cell,
      Markdown_cell, Markdown_cell, Markdown_cell, Markdown_cell, Shell_cell, Markdown_cell,
      Shell_cell, Markdown_cell, Shell_cell, Empty_cell, Markdown_cell, Python_cell,
      Markdown_cell, Markdown_cell, Python_cell, Markdown_cell, Markdown_cell, Writefile_cell,
      Markdown_cell, Shell_cell, Shell_cell, Markdown_cell, Shell_cell, Shell_cell,
      Markdown_cell, Markdown_cell, Markdown_cell, Writefile_cell, Markdown_cell, Python_cell,
      Markdown_cell, Writefile_cell, Markdown_cell, Writefile_cell, Markdown_cell,
      Writefile_cell, Markdown_cell, Comment_cell, Shell_cell, Markdown_cell, Shell_cell,
      Markdown_cell, Shell_cell, Markdown_cell, Shell_cell, Markdown_cell, Shell_cell,
      Shell_cell, Markdown_cell, Writefile_cell, Markdown_cell, Shell_cell, Shell_cell,
      Markdown_cell, Shell_cell, Shell_cell, Shell_cell, Markdown_cell, Shell_cell, Empty_cell]"
  by (simp add: all_cells_def all_notebooks_def map_concat
      classify_airflow_introduction classify_dvc_introduction classify_fastapi_introduction classify_airflow_part_001 classify_fastapi_part_002 classify_kedro_part_002)


lemma defined_names_all_cells:
  "map defined_names all_cells =
     [[], [], [], [''print_sth''], [], [''foo'', ''bar''], [], [], [], [], [], [], [], [], [],
      [], [], [], [], [], [], [], [], [], [], [], [], [], [], [], [], [], [], [], [], [], [],
      [], [], [], [], [], [], [], [], [], [], [], [], [], [], [], [], [], [], [], [], [], [],
      [], [], [], [], [], [], [], [], [], [], [], [], [], [], [], [], [], [''print_sth''], [],
      [''foo'', ''bar''], [], [], [], [], [], [], [], [], [], [], [], [], [], [], [], [],
      [''evaluate_model''], [], [], [''create_pipeline''], [], [], [], [], [], [], [], [], [],
      [], [], [''download_data''], [], [], [],
      [''create_red_wine_pipeline'', ''create_white_wine_pipeline''], [],
      [''ProjectHooks'', ''register_pipelines'', ''register_config_loader'', ''register_catalog''],
      [], [], [], [], [], [], [], [], [], [], [], [], [], [], [], [], [], [], [], [], [], [],
      [], []]"
  by (simp add: all_cells_def all_notebooks_def map_concat
      defined_names_airflow_introduction defined_names_dvc_introduction defined_names_fastapi_introduction defined_names_airflow_part_001 defined_names_fastapi_part_002 defined_names_kedro_part_002)

lemma calls_pipeline_or_node_all_cells:
  "map calls_pipeline_or_node all_cells =
     [False, False, False, False, False, False, False, False, False, False, False, False,
      False, False, False, False, False, False, False, False, False, False, False, False,
      False, False, False, False, False, False, False, False, False, False, False, False,
      False, False, False, False, False, False, False, False, False, False, False, False,
      False, False, False, False, False, False, False, False, False, False, False, False,
      False, False, False, False, False, False, False, False, False, False, False, False,
      False, False, False, False, False, False, False, False, False, False, False, False,
      False, False, False, False, False, False, False, False, False, False, False, False,
      False, False, True, False, False, False, False, False, False, False, False, False, False,
      False, False, False, False, False, True, False, False, False, False, False, False, False,
      False, False, False, False, False, False, False, False, False, False, False, False,
      False, False, False, False, False, False, False]"
  by (simp add: all_cells_def all_notebooks_def map_concat
      calls_pipeline_or_node_airflow_introduction calls_pipeline_or_node_dvc_introduction calls_pipeline_or_node_fastapi_introduction calls_pipeline_or_node_airflow_part_001 calls_pipeline_or_node_fastapi_part_002 calls_pipeline_or_node_kedro_part_002)

subsection \<open>Facts about strings and lists used below\<close>




lemma filter_by_map:
  "filter (\<lambda>x. f x = k) xs = map fst (filter (\<lambda>p. snd p = k) (zip xs (map f xs)))"
  by (induction xs) auto

lemma filter_flag_by_map:
  "filter f xs = map fst (filter snd (zip xs (map f xs)))"
  by (induction xs) auto

text \<open>
  The classification agrees with the two shapes the claim names: a cell is a markdown
  cell or a shell invocation exactly when it is classified so.
\<close>

lemma first_line_Nil: "source c = [] \<Longrightarrow> first_line c = []"
  by (simp add: first_line_def)

lemma writefile_is_no_bang_cell:
  assumes "is_writefile_magic c"
  shows "\<not> list_all (\<lambda>l. is_bang_line l \<or> is_comment_line l \<or> is_blank_line l) (source c)"
proof (cases "source c")
  case Nil
  with assms show ?thesis
    by (simp add: is_writefile_magic_def first_line_def startswith_def)
next
  case (Cons l ls)
  with assms have p: "prefix ''%%writefile'' l"
    by (simp add: is_writefile_magic_def first_line_def startswith_def)
  then obtain r where l: "l = ''%%writefile'' @ r" by (auto simp: prefix_def)
  have "\<not> is_bang_line l" "\<not> is_comment_line l" "\<not> is_blank_line l"
    unfolding l by (simp_all add: is_bang_line_def is_comment_line_def is_blank_line_def
        startswith_def)
  with Cons show ?thesis by simp
qed

lemma markdown_or_shell_iff:
  "markdown_or_shell c \<longleftrightarrow> classify c = Markdown_cell \<or> classify c = Shell_cell"
proof (cases "cell_type c")
  case Markdown
  then show ?thesis by (simp add: markdown_or_shell_def classify_def)
next
  case Code
  show ?thesis
  proof (cases "source c = []")
    case True
    with Code show ?thesis
      by (simp add: markdown_or_shell_def classify_def is_shell_cell_def is_shell_magic_def
          is_bang_cell_def first_line_Nil startswith_def)
  next
    case False
    with Code writefile_is_no_bang_cell [of c] show ?thesis
      by (auto simp: markdown_or_shell_def classify_def is_shell_cell_def is_bang_cell_def)
  qed
qed

lemma kinds_are_what_they_say:
  "list_all (\<lambda>c. classify c = k) (cells_of_kind k cs)"
  by (simp add: cells_of_kind_def list_all_iff)

subsection \<open>C1: what the cells are\<close>

lemma kedro_part_002_c01_in_all_cells: "kedro_part_002_c01 \<in> set all_cells"
  by (simp add: all_cells_list)

lemma kedro_part_002_c01_is_python: "classify kedro_part_002_c01 = Python_cell"
  by (simp add: kedro_part_002_c01_def classify_def cell_kind_defs)

text \<open>
  C1 as stated fails. The claim says that every cell of every notebook is a markdown
  cell or a shell invocation. The second cell of the Kedro exercise is a code cell
  with the two Python statements \<open>import os\<close> and \<open>os.chdir(...)\<close>, neither a \<open>!\<close> line
  nor under a shell magic.
\<close>

theorem not_every_cell_is_markdown_or_shell:
  "\<not> list_all markdown_or_shell all_cells"
proof
  assume "list_all markdown_or_shell all_cells"
  with kedro_part_002_c01_in_all_cells have "markdown_or_shell kedro_part_002_c01"
    by (simp add: list_all_iff)
  with kedro_part_002_c01_is_python show False
    by (simp add: markdown_or_shell_iff)
qed

text \<open>
  C1 as amended. Every one of the 141 cells is of one of six kinds: 70 markdown cells;
  55 shell invocations; 4 empty code cells; 6 \<open>%%writefile\<close> cells (all in the Kedro
  exercise); 1 code cell of comments only; and 5 code cells of Python that the kernel
  executes: the two \<open>os.chdir\<close> cells of the DVC introduction, and the \<open>os.chdir\<close>
  cell, the definition of \<open>evaluate_model\<close> and the definition of \<open>download_data\<close> in
  the Kedro exercise. The cells classified markdown or shell are those of the
  claim's two shapes.
\<close>

theorem cells_by_kind:
  "length all_cells = 141
   \<and> length (cells_of_kind Markdown_cell all_cells) = 70
   \<and> length (cells_of_kind Shell_cell all_cells) = 55
   \<and> length (cells_of_kind Empty_cell all_cells) = 4
   \<and> cells_of_kind Writefile_cell all_cells =
       [kedro_part_002_c07, kedro_part_002_c17, kedro_part_002_c21, kedro_part_002_c23,
        kedro_part_002_c25, kedro_part_002_c39]
   \<and> cells_of_kind Comment_cell all_cells = [kedro_part_002_c27]
   \<and> cells_of_kind Python_cell all_cells =
       [dvc_introduction_c03, dvc_introduction_c48, kedro_part_002_c01, kedro_part_002_c04,
        kedro_part_002_c19]
   \<and> list_all markdown_or_shell
        (cells_of_kind Markdown_cell all_cells @ cells_of_kind Shell_cell all_cells)"
proof -
  have kind: "cells_of_kind k all_cells =
      map fst (filter (\<lambda>p. snd p = k) (zip all_cells (map classify all_cells)))" for k
    unfolding cells_of_kind_def by (rule filter_by_map)
  have n: "length all_cells = 141"
    by (simp add: all_cells_list)
  have md: "length (cells_of_kind Markdown_cell all_cells) = 70"
    by (simp only: kind classify_all_cells) (simp add: all_cells_list)
  have sh: "length (cells_of_kind Shell_cell all_cells) = 55"
    by (simp only: kind classify_all_cells) (simp add: all_cells_list)
  have em: "length (cells_of_kind Empty_cell all_cells) = 4"
    by (simp only: kind classify_all_cells) (simp add: all_cells_list)
  have wf: "cells_of_kind Writefile_cell all_cells =
       [kedro_part_002_c07, kedro_part_002_c17, kedro_part_002_c21, kedro_part_002_c23,
        kedro_part_002_c25, kedro_part_002_c39]"
    by (simp only: kind classify_all_cells) (simp add: all_cells_list)
  have co: "cells_of_kind Comment_cell all_cells = [kedro_part_002_c27]"
    by (simp only: kind classify_all_cells) (simp add: all_cells_list)
  have py: "cells_of_kind Python_cell all_cells =
       [dvc_introduction_c03, dvc_introduction_c48, kedro_part_002_c01, kedro_part_002_c04,
        kedro_part_002_c19]"
    by (simp only: kind classify_all_cells) (simp add: all_cells_list)
  have "list_all markdown_or_shell (cells_of_kind Markdown_cell all_cells)"
    using kinds_are_what_they_say [of Markdown_cell all_cells]
    by (simp add: list_all_iff markdown_or_shell_iff)
  moreover have "list_all markdown_or_shell (cells_of_kind Shell_cell all_cells)"
    using kinds_are_what_they_say [of Shell_cell all_cells]
    by (simp add: list_all_iff markdown_or_shell_iff)
  ultimately have ms: "list_all markdown_or_shell
        (cells_of_kind Markdown_cell all_cells @ cells_of_kind Shell_cell all_cells)"
    by simp
  show ?thesis
    by (intro conjI) (rule n md sh em wf co py ms)+
qed

subsection \<open>C4: the shell invocations the specification names\<close>

lemma invoked_in:
  "c \<in> set cs \<Longrightarrow> invokes c cmd \<Longrightarrow> list_ex (\<lambda>c. invokes c cmd) cs"
  by (auto simp: list_ex_iff)

lemmas invokes_defs = invokes_def shell_lines_def cell_kind_defs

text \<open>
  C4. Each of \<open>pip install\<close>, \<open>airflow webserver\<close>, \<open>dvc run\<close>, \<open>dvc push\<close>,
  \<open>git commit\<close>, \<open>uvicorn\<close>, \<open>kedro run\<close> and \<open>kedro viz\<close> starts a shell command line
  (a \<open>!\<close> line, or a line of a \<open>%%bash\<close>/\<open>%%sh\<close> cell) of some code cell of some notebook.
\<close>

theorem named_shell_invocations_occur:
  "list_ex (\<lambda>c. invokes c ''pip install'') all_cells
   \<and> list_ex (\<lambda>c. invokes c ''airflow webserver'') all_cells
   \<and> list_ex (\<lambda>c. invokes c ''dvc run'') all_cells
   \<and> list_ex (\<lambda>c. invokes c ''dvc push'') all_cells
   \<and> list_ex (\<lambda>c. invokes c ''git commit'') all_cells
   \<and> list_ex (\<lambda>c. invokes c ''uvicorn'') all_cells
   \<and> list_ex (\<lambda>c. invokes c ''kedro run'') all_cells
   \<and> list_ex (\<lambda>c. invokes c ''kedro viz'') all_cells"
proof -
  have pip: "list_ex (\<lambda>c. invokes c ''pip install'') all_cells"
  proof (rule invoked_in)
    show "fastapi_introduction_c04 \<in> set all_cells" by (simp add: all_cells_list)
    show "invokes fastapi_introduction_c04 ''pip install''"
      by (simp add: fastapi_introduction_c04_def invokes_defs)
  qed
  have web: "list_ex (\<lambda>c. invokes c ''airflow webserver'') all_cells"
  proof (rule invoked_in)
    show "airflow_introduction_c11 \<in> set all_cells" by (simp add: all_cells_list)
    show "invokes airflow_introduction_c11 ''airflow webserver''"
      by (simp add: airflow_introduction_c11_def invokes_defs)
  qed
  have run: "list_ex (\<lambda>c. invokes c ''dvc run'') all_cells"
  proof (rule invoked_in)
    show "dvc_introduction_c22 \<in> set all_cells" by (simp add: all_cells_list)
    show "invokes dvc_introduction_c22 ''dvc run''"
      by (simp add: dvc_introduction_c22_def invokes_defs)
  qed
  have push: "list_ex (\<lambda>c. invokes c ''dvc push'') all_cells"
  proof (rule invoked_in)
    show "dvc_introduction_c20 \<in> set all_cells" by (simp add: all_cells_list)
    show "invokes dvc_introduction_c20 ''dvc push''"
      by (simp add: dvc_introduction_c20_def invokes_defs)
  qed
  have commit: "list_ex (\<lambda>c. invokes c ''git commit'') all_cells"
  proof (rule invoked_in)
    show "dvc_introduction_c17 \<in> set all_cells" by (simp add: all_cells_list)
    show "invokes dvc_introduction_c17 ''git commit''"
      by (simp add: dvc_introduction_c17_def invokes_defs)
  qed
  have uvicorn: "list_ex (\<lambda>c. invokes c ''uvicorn'') all_cells"
  proof (rule invoked_in)
    show "fastapi_introduction_c06 \<in> set all_cells" by (simp add: all_cells_list)
    show "invokes fastapi_introduction_c06 ''uvicorn''"
      by (simp add: fastapi_introduction_c06_def invokes_defs)
  qed
  have kedro_run: "list_ex (\<lambda>c. invokes c ''kedro run'') all_cells"
  proof (rule invoked_in)
    show "kedro_part_002_c09 \<in> set all_cells" by (simp add: all_cells_list)
    show "invokes kedro_part_002_c09 ''kedro run''"
      by (simp add: kedro_part_002_c09_def invokes_defs)
  qed
  have kedro_viz: "list_ex (\<lambda>c. invokes c ''kedro viz'') all_cells"
  proof (rule invoked_in)
    show "kedro_part_002_c10 \<in> set all_cells" by (simp add: all_cells_list)
    show "invokes kedro_part_002_c10 ''kedro viz''"
      by (simp add: kedro_part_002_c10_def invokes_defs)
  qed
  show ?thesis
    by (intro conjI) (rule pip web run push commit uvicorn kedro_run kedro_viz)+
qed

subsection \<open>The names defined in the notebooks\<close>

lemma all_defined_names:
  "concat (map defined_names all_cells) =
     [''print_sth'', ''foo'', ''bar'', ''print_sth'', ''foo'', ''bar'', ''evaluate_model'',
      ''create_pipeline'', ''download_data'', ''create_red_wine_pipeline'',
      ''create_white_wine_pipeline'', ''ProjectHooks'', ''register_pipelines'',
      ''register_config_loader'', ''register_catalog'']"
  by (simp only: defined_names_all_cells) simp

subsection \<open>C7: where XCom occurs\<close>












subsection \<open>C6: where Pipeline and node come from\<close>

lemma cells_calling_pipeline_or_node:
  "filter calls_pipeline_or_node all_cells = [kedro_part_002_c07, kedro_part_002_c23]"
  by (subst filter_flag_by_map, simp only: calls_pipeline_or_node_all_cells,
      simp add: all_cells_list)

lemmas binding_defs =
  lookup_binding_def module_bindings_def is_binding_line_def startswith_def words_def
  statement_bindings_def

lemma bindings_of_first_pipeline_cell:
  "module_bindings kedro_part_002_c07 =
     [(''Pipeline'', Imported ''kedro.pipeline''), (''node'', Imported ''kedro.pipeline''),
      (''evaluate_model'', Imported ''.nodes''), (''split_data'', Imported ''.nodes''),
      (''train_model'', Imported ''.nodes''), (''create_pipeline'', Defined)]"
  by (simp add: kedro_part_002_c07_def binding_defs)

lemma bindings_of_second_pipeline_cell:
  "module_bindings kedro_part_002_c23 =
     [(''Pipeline'', Imported ''kedro.pipeline''), (''node'', Imported ''kedro.pipeline''),
      (''evaluate_model'', Imported ''.nodes''), (''split_data'', Imported ''.nodes''),
      (''train_model'', Imported ''.nodes''), (''download_data'', Imported ''.nodes''),
      (''create_red_wine_pipeline'', Defined), (''create_white_wine_pipeline'', Defined)]"
  by (simp add: kedro_part_002_c23_def binding_defs)

text \<open>
  C6. The code cells that call \<open>Pipeline(\<close> or \<open>node(\<close> are the two \<open>%%writefile\<close>
  cells that write \<open>pipeline.py\<close>. Each holds the line
  \<open>from kedro.pipeline import Pipeline, node\<close>, and in each the names \<open>Pipeline\<close> and
  \<open>node\<close> are bound by that import and by nothing after it. No \<open>def\<close> or \<open>class\<close>
  statement of any cell of any notebook (listings in markdown cells included) defines
  a name \<open>Pipeline\<close> or \<open>node\<close>.
\<close>

theorem pipeline_and_node_are_imported_from_kedro:
  "filter calls_pipeline_or_node all_cells = [kedro_part_002_c07, kedro_part_002_c23]
   \<and> ''from kedro.pipeline import Pipeline, node\<newline>'' \<in> set (source kedro_part_002_c07)
   \<and> ''from kedro.pipeline import Pipeline, node\<newline>'' \<in> set (source kedro_part_002_c23)
   \<and> lookup_binding kedro_part_002_c07 ''Pipeline'' = Some (Imported ''kedro.pipeline'')
   \<and> lookup_binding kedro_part_002_c07 ''node'' = Some (Imported ''kedro.pipeline'')
   \<and> lookup_binding kedro_part_002_c23 ''Pipeline'' = Some (Imported ''kedro.pipeline'')
   \<and> lookup_binding kedro_part_002_c23 ''node'' = Some (Imported ''kedro.pipeline'')
   \<and> ''Pipeline'' \<notin> set (concat (map defined_names all_cells))
   \<and> ''node'' \<notin> set (concat (map defined_names all_cells))"
proof -
  have l1: "''from kedro.pipeline import Pipeline, node\<newline>'' \<in> set (source kedro_part_002_c07)"
    by (simp add: kedro_part_002_c07_def)
  have l2: "''from kedro.pipeline import Pipeline, node\<newline>'' \<in> set (source kedro_part_002_c23)"
    by (simp add: kedro_part_002_c23_def)
  have p1: "lookup_binding kedro_part_002_c07 ''Pipeline'' = Some (Imported ''kedro.pipeline'')"
    by (simp add: lookup_binding_def bindings_of_first_pipeline_cell)
  have n1: "lookup_binding kedro_part_002_c07 ''node'' = Some (Imported ''kedro.pipeline'')"
    by (simp add: lookup_binding_def bindings_of_first_pipeline_cell)
  have p2: "lookup_binding kedro_part_002_c23 ''Pipeline'' = Some (Imported ''kedro.pipeline'')"
    by (simp add: lookup_binding_def bindings_of_second_pipeline_cell)
  have n2: "lookup_binding kedro_part_002_c23 ''node'' = Some (Imported ''kedro.pipeline'')"
    by (simp add: lookup_binding_def bindings_of_second_pipeline_cell)
  have d1: "''Pipeline'' \<notin> set (concat (map defined_names all_cells))"
    by (simp only: all_defined_names) simp
  have d2: "''node'' \<notin> set (concat (map defined_names all_cells))"
    by (simp only: all_defined_names) simp
  show ?thesis
    by (intro conjI) (rule cells_calling_pipeline_or_node l1 l2 p1 n1 p2 n2 d1 d2)+
qed

subsection \<open>C5: the dependency structures have no cycle\<close>

lemma runs_forward_acyclic:
  assumes "runs_forward order es"
  shows "acyclic (set es)"
proof -
  have "set es \<subseteq> inv_image less_than (position order)"
    using assms by (auto simp: runs_forward_def list_all_iff inv_image_def)
  moreover have "wf (inv_image less_than (position order))"
    by (rule wf_inv_image) (rule wf_less_than)
  ultimately show ?thesis
    by (meson acyclic_subset wf_acyclic)
qed

lemmas stage_defs =
  stage_of_cell_def shell_lines_def cell_kind_defs dvc_run_def no_stage_def

lemma stage_download:
  "stage_of_cell dvc_introduction_c22 =
     Some \<lparr>stage_name = ''download'',
           deps = [''dvc_introduction.py'',
                   ''http://archive.ics.uci.edu/ml/machine-learning-databases/wine-quality/winequality-red.csv''],
           outs = [''data/winequality-red.csv''],
           metrics = [], params = [],
           command = [''python'', ''dvc_introduction.py'', ''download_data'',
                      ''http://archive.ics.uci.edu/ml/machine-learning-databases/wine-quality/winequality-red.csv'',
                      ''data/winequality-red.csv'']\<rparr>"
  by (simp add: dvc_introduction_c22_def stage_defs)

lemma stage_split:
  "stage_of_cell dvc_introduction_c23 =
     Some \<lparr>stage_name = ''split'',
           deps = [''dvc_introduction.py'', ''data/winequality-red.csv''],
           outs = [''data/x_train.csv'', ''data/y_train.csv'', ''data/x_test.csv'',
                   ''data/y_test.csv''],
           metrics = [], params = [],
           command = [''python'', ''dvc_introduction.py'', ''split_data'',
                      ''data/winequality-red.csv'']\<rparr>"
  by (simp add: dvc_introduction_c23_def stage_defs)

lemma stage_train:
  "stage_of_cell dvc_introduction_c24 =
     Some \<lparr>stage_name = ''train'',
           deps = [''dvc_introduction.py'', ''data/x_train.csv'', ''data/y_train.csv''],
           outs = [''data/model''],
           metrics = [], params = [''alpha,l1_ratio''],
           command = [''python'', ''dvc_introduction.py'', ''train_model'',
                      ''data/x_train.csv'', ''data/y_train.csv'']\<rparr>"
  by (simp add: dvc_introduction_c24_def stage_defs)

lemma stage_evaluate:
  "stage_of_cell dvc_introduction_c25 =
     Some \<lparr>stage_name = ''evaluate'',
           deps = [''dvc_introduction.py'', ''data/model'', ''data/x_test.csv'',
                   ''data/y_test.csv''],
           outs = [],
           metrics = [''data/result.json''], params = [],
           command = [''python'', ''dvc_introduction.py'', ''evaluate_model'', ''data/model'',
                      ''data/x_test.csv'', ''data/y_test.csv'']\<rparr>"
  by (simp add: dvc_introduction_c25_def stage_defs)

lemma stage_kedro_red:
  "stage_of_cell kedro_part_002_c41 =
     Some \<lparr>stage_name = ''kedro_red'',
           deps = [''data/01_raw/winequality-red.csv'', ''src/workflow_tutorial/pipelines''],
           outs = [''data/06_models/model_red.pickle''],
           metrics = [''data/08_reporting/scores_red.yaml''],
           params = [''conf/base/parameters.yml:test_size,random_state,alpha,l1_ratio''],
           command = [''kedro run --pipeline=red'']\<rparr>"
  by (simp add: kedro_part_002_c41_def stage_defs)

lemma stage_kedro_white:
  "stage_of_cell kedro_part_002_c42 =
     Some \<lparr>stage_name = ''kedro_white'',
           deps = [''data/01_raw/winequality-white.csv'', ''src/workflow_tutorial/pipelines''],
           outs = [''data/06_models/model_white.pickle''],
           metrics = [''data/08_reporting/scores_white.yaml''],
           params = [''conf/base/parameters.yml:test_size,random_state,alpha,l1_ratio''],
           command = [''kedro run --pipeline=white'']\<rparr>"
  by (simp add: kedro_part_002_c42_def stage_defs)

lemma dvc_run_cells_of_dvc_introduction:
  "filter is_dvc_run_cell dvc_introduction =
     [dvc_introduction_c22, dvc_introduction_c23, dvc_introduction_c24, dvc_introduction_c25]"
  by (subst filter_flag_by_map, simp only: dvc_run_cells_dvc_introduction,
      simp add: dvc_introduction_def)

lemma dvc_run_cells_of_kedro_part_002:
  "filter is_dvc_run_cell kedro_part_002 = [kedro_part_002_c41, kedro_part_002_c42]"
  by (subst filter_flag_by_map, simp only: dvc_run_cells_kedro_part_002,
      simp add: kedro_part_002_def)

lemma stage_names_dvc_introduction:
  "map stage_name (dvc_stages dvc_introduction) = [''download'', ''split'', ''train'', ''evaluate'']"
  by (simp add: dvc_stages_def dvc_run_cells_of_dvc_introduction List.map_filter_def
      stage_download stage_split stage_train stage_evaluate)

lemma stage_edges_dvc_introduction:
  "stage_edges (dvc_stages dvc_introduction) =
     [(''download'', ''split''), (''split'', ''train''), (''split'', ''evaluate''),
      (''train'', ''evaluate'')]"
  by (simp add: dvc_stages_def dvc_run_cells_of_dvc_introduction List.map_filter_def
      stage_download stage_split stage_train stage_evaluate stage_edges_def stage_feeds_def)

lemma stage_names_kedro_part_002:
  "map stage_name (dvc_stages kedro_part_002) = [''kedro_red'', ''kedro_white'']"
  by (simp add: dvc_stages_def dvc_run_cells_of_kedro_part_002 List.map_filter_def
      stage_kedro_red stage_kedro_white)

lemma stage_edges_kedro_part_002:
  "stage_edges (dvc_stages kedro_part_002) = []"
  by (simp add: dvc_stages_def dvc_run_cells_of_kedro_part_002 List.map_filter_def
      stage_kedro_red stage_kedro_white stage_edges_def stage_feeds_def)

lemmas pipeline_defs =
  node_edges_def node_feeds_def Pipeline_def node_def pipeline_add_def

lemma node_edges_create_pipeline:
  "node_edges create_pipeline =
     [(''splitting_data'', ''training_model''), (''splitting_data'', ''evaluating_model''),
      (''training_model'', ''evaluating_model'')]"
  by (simp add: create_pipeline_def pipeline_defs)

lemma node_edges_red_wine:
  "node_edges create_red_wine_pipeline =
     [(''splitting_red_wine_data'', ''training_red_wine_model''),
      (''splitting_red_wine_data'', ''evaluating_red_wine_model''),
      (''training_red_wine_model'', ''evaluating_red_wine_model'')]"
  by (simp add: create_red_wine_pipeline_def pipeline_defs)

lemma node_edges_white_wine:
  "node_edges create_white_wine_pipeline =
     [(''download_white_wine_data'', ''splitting_white_wine_data''),
      (''splitting_white_wine_data'', ''training_white_wine_model''),
      (''splitting_white_wine_data'', ''evaluating_white_wine_model''),
      (''training_white_wine_model'', ''evaluating_white_wine_model'')]"
  by (simp add: create_white_wine_pipeline_def pipeline_defs)

lemma default_pipeline:
  "map_of register_pipelines ''__default__'' =
     Some (pipeline_add create_red_wine_pipeline create_white_wine_pipeline)"
  by (simp add: register_pipelines_def Let_def)

lemma node_edges_default:
  "node_edges (pipeline_add create_red_wine_pipeline create_white_wine_pipeline) =
     node_edges create_red_wine_pipeline @ node_edges create_white_wine_pipeline"
  by (simp add: create_red_wine_pipeline_def create_white_wine_pipeline_def pipeline_defs)

lemma airflow_orderings:
  "connecting_operators = [(''lookup_file'', ''print'')]"
  "xcom_example = [(''task1'', ''task2'')]"
  by (simp_all add: connecting_operators_def xcom_example_def rshift_def fs_task_def
      python_task_def task1_def task2_def)

text \<open>
  C5. No dependency structure of the notebooks has a cycle: not the stages of the DVC
  introduction (\<open>download\<close>, \<open>split\<close>, \<open>train\<close>, \<open>evaluate\<close>, with an edge wherever an
  output of one stage is a dependency of another), not the nodes of the red wine and
  of the white wine pipeline of Kedro (with an edge wherever an output of one node is
  an input of another), not the ordering \<open>fs_task >> python_task\<close> of Airflow. The same
  holds of the other structures the notebooks define: the first \<open>create_pipeline\<close>, the
  \<open>__default__\<close> pipeline (red plus white), the two DVC stages of the Kedro exercise and
  the ordering \<open>task1 >> task2\<close> of the XCom example.
\<close>

theorem dependency_structures_are_acyclic:
  "acyclic (set (stage_edges (dvc_stages dvc_introduction)))
   \<and> acyclic (set (node_edges create_red_wine_pipeline))
   \<and> acyclic (set (node_edges create_white_wine_pipeline))
   \<and> acyclic (set connecting_operators)
   \<and> acyclic (set (node_edges create_pipeline))
   \<and> acyclic (set (node_edges (pipeline_add create_red_wine_pipeline create_white_wine_pipeline)))
   \<and> acyclic (set (stage_edges (dvc_stages kedro_part_002)))
   \<and> acyclic (set xcom_example)"
proof -
  have dvc: "acyclic (set (stage_edges (dvc_stages dvc_introduction)))"
    by (rule runs_forward_acyclic [where order = "[''download'', ''split'', ''train'', ''evaluate'']"])
      (simp add: stage_edges_dvc_introduction runs_forward_def)
  have red: "acyclic (set (node_edges create_red_wine_pipeline))"
    by (rule runs_forward_acyclic [where order = "map name create_red_wine_pipeline"])
      (simp only: node_edges_red_wine,
        simp add: runs_forward_def create_red_wine_pipeline_def Pipeline_def node_def)
  have white: "acyclic (set (node_edges create_white_wine_pipeline))"
    by (rule runs_forward_acyclic [where order = "map name create_white_wine_pipeline"])
      (simp only: node_edges_white_wine,
        simp add: runs_forward_def create_white_wine_pipeline_def Pipeline_def node_def)
  have airflow: "acyclic (set connecting_operators)"
    by (rule runs_forward_acyclic [where order = "[''lookup_file'', ''print'']"])
      (simp add: airflow_orderings runs_forward_def)
  have first: "acyclic (set (node_edges create_pipeline))"
    by (rule runs_forward_acyclic [where order = "map name create_pipeline"])
      (simp only: node_edges_create_pipeline,
        simp add: runs_forward_def create_pipeline_def Pipeline_def node_def)
  have default: "acyclic (set (node_edges
      (pipeline_add create_red_wine_pipeline create_white_wine_pipeline)))"
    by (rule runs_forward_acyclic [where order =
          "map name create_red_wine_pipeline @ map name create_white_wine_pipeline"])
      (simp only: node_edges_default node_edges_red_wine node_edges_white_wine,
        simp add: runs_forward_def create_red_wine_pipeline_def create_white_wine_pipeline_def
          Pipeline_def node_def)
  have kedro_dvc: "acyclic (set (stage_edges (dvc_stages kedro_part_002)))"
    by (rule runs_forward_acyclic [where order = "[''kedro_red'', ''kedro_white'']"])
      (simp add: stage_edges_kedro_part_002 runs_forward_def)
  have xcom: "acyclic (set xcom_example)"
    by (rule runs_forward_acyclic [where order = "[''task1'', ''task2'']"])
      (simp add: airflow_orderings runs_forward_def)
  show ?thesis
    by (intro conjI) (rule dvc red white airflow first default kedro_dvc xcom)+
qed

subsection \<open>C8: the shared workspace volume\<close>

lemma under_workspace:
  assumes "prefix [''workshop'', ''workspace''] p"
  obtains rest where "p = ''workshop'' # ''workspace'' # rest"
  using assms by (auto simp: prefix_def)

lemma resolve_jupyter_workspace:
  "resolve (mounts jupyter) (''workshop'' # ''workspace'' # rest) =
     Some (Named_volume ''workspace'', rest)"
  by (simp add: mounts_jupyter resolve_def)

lemma resolve_airflow_workspace:
  "resolve (mounts airflow) (''workshop'' # ''workspace'' # rest) =
     Some (Named_volume ''workspace'', rest)"
  by (simp add: mounts_airflow resolve_def)

text \<open>
  C8. Both services mount the named volume \<open>workspace\<close>, which the file declares, at
  \<open>/workshop/workspace\<close>. So every container path under \<open>/workshop/workspace\<close> is
  backed, in the \<open>jupyter\<close> container and in the \<open>airflow\<close> container alike, by the
  same place of the same volume: the path's remainder below the mount point in the
  volume \<open>workspace\<close>.
\<close>

theorem workspace_paths_are_shared:
  assumes "prefix [''workshop'', ''workspace''] p"
  shows "resolve (mounts jupyter) p = Some (Named_volume ''workspace'', drop 2 p)
    \<and> resolve (mounts airflow) p = Some (Named_volume ''workspace'', drop 2 p)
    \<and> (Named_volume ''workspace'', [''workshop'', ''workspace'']) \<in> set (mounts jupyter)
    \<and> (Named_volume ''workspace'', [''workshop'', ''workspace'']) \<in> set (mounts airflow)
    \<and> ''workspace'' \<in> set (top_level_volumes docker_compose)"
proof -
  from assms obtain rest where p: "p = ''workshop'' # ''workspace'' # rest"
    by (rule under_workspace)
  have j: "resolve (mounts jupyter) p = Some (Named_volume ''workspace'', drop 2 p)"
    unfolding p by (simp only: resolve_jupyter_workspace) simp
  have a: "resolve (mounts airflow) p = Some (Named_volume ''workspace'', drop 2 p)"
    unfolding p by (simp only: resolve_airflow_workspace) simp
  have mj: "(Named_volume ''workspace'', [''workshop'', ''workspace'']) \<in> set (mounts jupyter)"
    by (simp add: mounts_jupyter)
  have ma: "(Named_volume ''workspace'', [''workshop'', ''workspace'']) \<in> set (mounts airflow)"
    by (simp add: mounts_airflow)
  have v: "''workspace'' \<in> set (top_level_volumes docker_compose)"
    by (simp add: docker_compose_def)
  show ?thesis
    by (intro conjI) (rule j a mj ma v)+
qed

lemma notebook_paths_under_workspace:
  "split_path ''/workshop/workspace/dvc_intro'' = [''workshop'', ''workspace'', ''dvc_intro'']"
  "split_path ''/workshop/workspace/workflow-tutorial'' =
     [''workshop'', ''workspace'', ''workflow-tutorial'']"
  by (simp_all add: split_path_def)

text \<open>
  The two directories the notebooks change into, \<open>/workshop/workspace/dvc_intro\<close> (DVC
  introduction, cell 3) and \<open>/workshop/workspace/workflow-tutorial\<close> (Kedro exercise,
  cell 1), are such paths.
\<close>

theorem workspace_paths_are_shared_witness:
  "mentions dvc_introduction_c03 ''os.chdir(\"/workshop/workspace/dvc_intro\")''
   \<and> prefix [''workshop'', ''workspace''] (split_path ''/workshop/workspace/dvc_intro'')
   \<and> resolve (mounts jupyter) (split_path ''/workshop/workspace/dvc_intro'') =
       Some (Named_volume ''workspace'', [''dvc_intro''])
   \<and> resolve (mounts airflow) (split_path ''/workshop/workspace/dvc_intro'') =
       Some (Named_volume ''workspace'', [''dvc_intro''])
   \<and> mentions kedro_part_002_c01 ''os.chdir(\"/workshop/workspace/workflow-tutorial\")''
   \<and> prefix [''workshop'', ''workspace''] (split_path ''/workshop/workspace/workflow-tutorial'')
   \<and> resolve (mounts jupyter) (split_path ''/workshop/workspace/workflow-tutorial'') =
       Some (Named_volume ''workspace'', [''workflow-tutorial''])
   \<and> resolve (mounts airflow) (split_path ''/workshop/workspace/workflow-tutorial'') =
       Some (Named_volume ''workspace'', [''workflow-tutorial''])"
proof -
  have d: "prefix [''workshop'', ''workspace''] (split_path ''/workshop/workspace/dvc_intro'')"
    by (simp add: notebook_paths_under_workspace)
  have k: "prefix [''workshop'', ''workspace'']
      (split_path ''/workshop/workspace/workflow-tutorial'')"
    by (simp add: notebook_paths_under_workspace)
  have md: "mentions dvc_introduction_c03 ''os.chdir(\"/workshop/workspace/dvc_intro\")''"
    by (simp add: dvc_introduction_c03_def mentions_def)
  have mk: "mentions kedro_part_002_c01 ''os.chdir(\"/workshop/workspace/workflow-tutorial\")''"
    by (simp add: kedro_part_002_c01_def mentions_def)
  from workspace_paths_are_shared [OF d] workspace_paths_are_shared [OF k] d k md mk
  show ?thesis
    by (simp add: notebook_paths_under_workspace)
qed

subsection \<open>C9 and C10: evaluate_model\<close>

lemma then_do_simps [simp]:
  "then_do (Inl e) f = Inl e"
  "then_do (Inr a) f = f a"
  by (simp_all add: then_do_def)

lemma call_simps [simp]:
  "call (Inl e) = Inl (Raised e)"
  "call (Inr a) = Inr a"
  by (simp_all add: call_def)

lemma python_cells_of_kedro_part_002:
  "cells_of_kind Python_cell kedro_part_002 =
     [kedro_part_002_c01, kedro_part_002_c04, kedro_part_002_c19]"
  by (simp only: cells_of_kind_def, subst filter_by_map, simp only: classify_kedro_part_002,
      simp add: kedro_part_002_def)

lemma kernel_names_kedro_part_002:
  "kernel_names kedro_part_002 =
     [''os'', ''Dict'', ''np'', ''Pipeline'', ''mean_squared_error'', ''mean_absolute_error'',
      ''r2_score'', ''evaluate_model'', ''pd'', ''download_data'']"
  by (simp only: kernel_names_def python_cells_of_kedro_part_002,
      simp add: kedro_part_002_c01_def kedro_part_002_c04_def kedro_part_002_c19_def
        binding_defs)

lemma kernel_loads:
  "load_global (globals exercise_kernel) ''np'' = Inr ()"
  "load_global (globals exercise_kernel) ''mean_squared_error'' = Inr ()"
  "load_global (globals exercise_kernel) ''mean_absolute_error'' = Inr ()"
  "load_global (globals exercise_kernel) ''r2_score'' = Inr ()"
  "load_global (globals exercise_kernel) ''mlflow'' = Inl (NameError ''mlflow'')"
  "load_global (globals exercise_kernel) ''logging'' = Inl (NameError ''logging'')"
  by (simp_all add: load_global_def exercise_kernel_def kernel_names_kedro_part_002
      always_bound_def)

lemma evaluate_model_raises_before_mlflow:
  "evaluate_model exercise_kernel lib pipe x_test y_test =
     (case predict lib pipe x_test of
        Inl e \<Rightarrow> Inl (Raised e)
      | Inr y_pred \<Rightarrow>
          (case mean_squared_error lib y_test y_pred of
             Inl e \<Rightarrow> Inl (Raised e)
           | Inr mse \<Rightarrow>
               (case np_sqrt lib mse of
                  Inl e \<Rightarrow> Inl (Raised e)
                | Inr rmse \<Rightarrow>
                    (case mean_absolute_error lib y_test y_pred of
                       Inl e \<Rightarrow> Inl (Raised e)
                     | Inr mae \<Rightarrow>
                         (case r2_score lib y_test y_pred of
                            Inl e \<Rightarrow> Inl (Raised e)
                          | Inr r2 \<Rightarrow> Inl (NameError ''mlflow''))))))"
  by (simp add: evaluate_model_def kernel_loads split: sum.splits)

text \<open>
  C9 as stated fails. The claim says that the call raises \<open>NameError\<close> for every input.
  The first statement of the body is \<open>pipe.predict(x_test)\<close>; when that call raises (a
  \<open>pipe\<close> with no \<open>predict\<close>, such as \<open>None\<close>, raises \<open>AttributeError\<close>), its exception
  leaves the function before \<open>mlflow\<close> is read.
\<close>

theorem evaluate_model_can_raise_another_error:
  "evaluate_model exercise_kernel no_predict_libraries () [1, 2] [3, 4] =
     Inl (Raised ''AttributeError'')"
  by (simp add: evaluate_model_raises_before_mlflow no_predict_libraries_def
      working_libraries_def)

text \<open>
  C9 as amended. Called in the kernel of the exercise, where cell 4 defines it,
  \<open>evaluate_model\<close> returns for no input: it always raises. The five calls to sklearn
  and numpy are made in the order of the body; the first of them that raises ends the
  function with its own exception; when all five return, the exception is \<open>NameError\<close>
  for the name \<open>mlflow\<close>, which neither that cell nor any other cell of the notebook
  binds (the name \<open>logging\<close>, unbound as well, is never reached).
\<close>

theorem evaluate_model_never_returns_in_kernel:
  "evaluate_model exercise_kernel lib pipe x_test y_test =
     (case predict lib pipe x_test of
        Inl e \<Rightarrow> Inl (Raised e)
      | Inr y_pred \<Rightarrow>
          (case mean_squared_error lib y_test y_pred of
             Inl e \<Rightarrow> Inl (Raised e)
           | Inr mse \<Rightarrow>
               (case np_sqrt lib mse of
                  Inl e \<Rightarrow> Inl (Raised e)
                | Inr rmse \<Rightarrow>
                    (case mean_absolute_error lib y_test y_pred of
                       Inl e \<Rightarrow> Inl (Raised e)
                     | Inr mae \<Rightarrow>
                         (case r2_score lib y_test y_pred of
                            Inl e \<Rightarrow> Inl (Raised e)
                          | Inr r2 \<Rightarrow> Inl (NameError ''mlflow''))))))
   \<and> (\<exists>e. evaluate_model exercise_kernel lib pipe x_test y_test = Inl e)
   \<and> (predict lib pipe x_test = Inr y_pred
        \<and> mean_squared_error lib y_test y_pred = Inr mse
        \<and> np_sqrt lib mse = Inr rmse
        \<and> mean_absolute_error lib y_test y_pred = Inr mae
        \<and> r2_score lib y_test y_pred = Inr r2
      \<longrightarrow> evaluate_model exercise_kernel lib pipe x_test y_test = Inl (NameError ''mlflow''))
   \<and> ''mlflow'' \<notin> set (kernel_names kedro_part_002)
   \<and> ''logging'' \<notin> set (kernel_names kedro_part_002)"
proof (intro conjI)
  show "evaluate_model exercise_kernel lib pipe x_test y_test =
     (case predict lib pipe x_test of
        Inl e \<Rightarrow> Inl (Raised e)
      | Inr y_pred \<Rightarrow>
          (case mean_squared_error lib y_test y_pred of
             Inl e \<Rightarrow> Inl (Raised e)
           | Inr mse \<Rightarrow>
               (case np_sqrt lib mse of
                  Inl e \<Rightarrow> Inl (Raised e)
                | Inr rmse \<Rightarrow>
                    (case mean_absolute_error lib y_test y_pred of
                       Inl e \<Rightarrow> Inl (Raised e)
                     | Inr mae \<Rightarrow>
                         (case r2_score lib y_test y_pred of
                            Inl e \<Rightarrow> Inl (Raised e)
                          | Inr r2 \<Rightarrow> Inl (NameError ''mlflow''))))))"
    by (rule evaluate_model_raises_before_mlflow)
  show "\<exists>e. evaluate_model exercise_kernel lib pipe x_test y_test = Inl e"
    by (simp add: evaluate_model_raises_before_mlflow split: sum.splits)
  show "predict lib pipe x_test = Inr y_pred
        \<and> mean_squared_error lib y_test y_pred = Inr mse
        \<and> np_sqrt lib mse = Inr rmse
        \<and> mean_absolute_error lib y_test y_pred = Inr mae
        \<and> r2_score lib y_test y_pred = Inr r2
      \<longrightarrow> evaluate_model exercise_kernel lib pipe x_test y_test = Inl (NameError ''mlflow'')"
    by (simp add: evaluate_model_raises_before_mlflow)
  show "''mlflow'' \<notin> set (kernel_names kedro_part_002)"
    by (simp add: kernel_names_kedro_part_002)
  show "''logging'' \<notin> set (kernel_names kedro_part_002)"
    by (simp add: kernel_names_kedro_part_002)
qed

theorem evaluate_model_never_returns_in_kernel_witness:
  "predict working_libraries () [1, 2] = Inr [1, 2]
   \<and> mean_squared_error working_libraries [3, 4] [1, 2] = Inr 4
   \<and> np_sqrt working_libraries 4 = Inr 2
   \<and> mean_absolute_error working_libraries [3, 4] [1, 2] = Inr 1
   \<and> r2_score working_libraries [3, 4] [1, 2] = Inr 0
   \<and> evaluate_model exercise_kernel working_libraries () [1, 2] [3, 4] =
       Inl (NameError ''mlflow'')"
  using evaluate_model_never_returns_in_kernel
    [of working_libraries "()" "[1, 2]" "[3, 4]" "[1, 2]" 4 2 1 0]
  by (simp add: working_libraries_def)

lemma nodes_module_loads:
  "load_global (globals nodes_module) ''np'' = Inr ()"
  "load_global (globals nodes_module) ''mean_squared_error'' = Inr ()"
  "load_global (globals nodes_module) ''mean_absolute_error'' = Inr ()"
  "load_global (globals nodes_module) ''r2_score'' = Inr ()"
  "load_global (globals nodes_module) ''mlflow'' = Inr ()"
  "load_global (globals nodes_module) ''logging'' = Inr ()"
  by (simp_all add: load_global_def nodes_module_def kernel_names_kedro_part_002)

lemma load_always_bound:
  "load_global g ''__name__'' = Inr ()"
  "load_global g ''float'' = Inr ()"
  by (simp_all add: load_global_def always_bound_def)

text \<open>
  C10 as stated fails. The claim asks only that \<open>mlflow\<close> and \<open>logging\<close> be bound and
  that the calls to sklearn and numpy return. Between the metrics and the \<open>return\<close>
  statement stand three calls of \<open>mlflow.log_metric\<close> and two calls into logging;
  when one of them raises (here: the first \<open>mlflow.log_metric\<close>), the function raises
  and returns no dictionary.
\<close>

theorem evaluate_model_can_raise_in_mlflow:
  "load_global (globals nodes_module) ''mlflow'' = (Inr () :: string exception + unit)
   \<and> load_global (globals nodes_module) ''logging'' = (Inr () :: string exception + unit)
   \<and> predict no_tracking_libraries () [1, 2] = Inr [1, 2]
   \<and> mean_squared_error no_tracking_libraries [3, 4] [1, 2] = Inr 4
   \<and> np_sqrt no_tracking_libraries 4 = Inr 2
   \<and> mean_absolute_error no_tracking_libraries [3, 4] [1, 2] = Inr 1
   \<and> r2_score no_tracking_libraries [3, 4] [1, 2] = Inr 0
   \<and> evaluate_model nodes_module no_tracking_libraries () [1, 2] [3, 4] =
       Inl (Raised ''MlflowException'')"
  by (simp add: evaluate_model_def nodes_module_loads load_always_bound
      no_tracking_libraries_def working_libraries_def)

text \<open>
  C10 as amended. In a module that binds the names the body reads (\<open>np\<close>, the three
  metric functions, \<open>mlflow\<close> and \<open>logging\<close>), when every call of the body returns (the
  calls to sklearn and numpy, and also the calls to mlflow and logging), the function
  returns the dictionary whose one key is \<open>train\<close>, holding a dictionary with exactly
  the keys \<open>rmse\<close>, \<open>mae\<close> and \<open>r2\<close>, in this order, each a float: the conversions by
  \<open>float\<close> of the root of the mean squared error, of the mean absolute error and of the
  coefficient of determination of \<open>y_test\<close> against the prediction for \<open>x_test\<close>, the test data.
\<close>

theorem evaluate_model_returns_train_metrics:
  assumes "set [''np'', ''mean_squared_error'', ''mean_absolute_error'', ''r2_score'',
                ''mlflow'', ''logging''] \<subseteq> set (globals env)"
    and "predict lib pipe x_test = Inr y_pred"
    and "mean_squared_error lib y_test y_pred = Inr mse"
    and "np_sqrt lib mse = Inr rmse"
    and "mean_absolute_error lib y_test y_pred = Inr mae"
    and "r2_score lib y_test y_pred = Inr r2"
    and "mlflow_log_metric lib ''rmse'' rmse = Inr ()"
    and "mlflow_log_metric lib ''mae'' mae = Inr ()"
    and "mlflow_log_metric lib ''r2'' r2 = Inr ()"
    and "logging_getLogger lib (modname env) = Inr logger"
    and "logger_info lib logger ''Model has a coefficient R^2 of %.3f.'' r2 = Inr ()"
  shows "evaluate_model env lib pipe x_test y_test =
     Inr (Dict [(''train'',
                 Dict [(''rmse'', Float (py_float lib rmse)),
                       (''mae'', Float (py_float lib mae)),
                       (''r2'', Float (py_float lib r2))])])"
proof -
  from assms(1) have loads:
    "load_global (globals env) ''np'' = Inr ()"
    "load_global (globals env) ''mean_squared_error'' = Inr ()"
    "load_global (globals env) ''mean_absolute_error'' = Inr ()"
    "load_global (globals env) ''r2_score'' = Inr ()"
    "load_global (globals env) ''mlflow'' = Inr ()"
    "load_global (globals env) ''logging'' = Inr ()"
    by (simp_all add: load_global_def)
  show ?thesis
    by (simp add: evaluate_model_def loads load_always_bound assms(2-11))
qed

theorem evaluate_model_returns_train_metrics_witness:
  "set [''np'', ''mean_squared_error'', ''mean_absolute_error'', ''r2_score'',
        ''mlflow'', ''logging''] \<subseteq> set (globals nodes_module)
   \<and> predict working_libraries () [1, 2] = Inr [1, 2]
   \<and> mlflow_log_metric working_libraries ''rmse'' 2 = Inr ()
   \<and> evaluate_model nodes_module working_libraries () [1, 2] [3, 4] =
       Inr (Dict [(''train'', Dict [(''rmse'', Float 2), (''mae'', Float 1), (''r2'', Float 0)])])"
proof -
  have names: "set [''np'', ''mean_squared_error'', ''mean_absolute_error'', ''r2_score'',
        ''mlflow'', ''logging''] \<subseteq> set (globals nodes_module)"
    by (simp add: nodes_module_def kernel_names_kedro_part_002)
  have "evaluate_model nodes_module working_libraries () [1, 2] [3, 4] =
     Inr (Dict [(''train'',
                 Dict [(''rmse'', Float (py_float working_libraries 2)),
                       (''mae'', Float (py_float working_libraries 1)),
                       (''r2'', Float (py_float working_libraries 0))])])"
    by (rule evaluate_model_returns_train_metrics
          [where y_pred = "[1, 2]" and mse = 4 and logger = "modname nodes_module", OF names])
      (simp_all add: working_libraries_def)
  with names show ?thesis
    by (simp add: working_libraries_def)
qed


end
